(* ===== verification/Prelude.thy ===== *)
theory Prelude
  imports Main "HOL-Library.Word"
begin

text \<open>
  Shared vocabulary of the ESP32 I/O-object development: the machine types of the
  C++ source (\<open>unsigned int\<close> as a 32-bit word, the vendor API's \<open>uint8_t\<close> PWM
  channel number as an 8-bit word), the collection \<open>hal_simps\<close> that gathers the
  read-after-write equations of the hardware model, and the word facts about the
  duty-cycle arithmetic that the component theories share.
\<close>

type_synonym u32 = "32 word"
type_synonym u8 = "8 word"
type_synonym pin = nat

named_theorems hal_simps "read-after-write equations of the hardware abstraction layer"

subsection \<open>Word facts used by the duty-cycle arithmetic\<close>

text \<open>
  The scaling \<open>x * 256 / 8\<close> is evaluated in \<open>unsigned int\<close>; for the levels that
  reach it (1 to 7) the product does not wrap, so it equals \<open>x * 32\<close>.
\<close>

lemma u32_scale_eighth:
  fixes x :: u32
  assumes "x \<le> 7"
  shows "unat (x * 256 div 8) = unat x * 32" and "x * 256 div 8 = x * 32"
proof -
  have u: "unat x \<le> 7" using assms by (simp add: word_le_nat_alt)
  have m: "unat (x * 256) = unat x * 256"
    using u by (subst unat_mult_lem [THEN iffD1]) simp_all
  have m2: "unat (x * 32) = unat x * 32"
    using u by (subst unat_mult_lem [THEN iffD1]) simp_all
  show a: "unat (x * 256 div 8) = unat x * 32" by (simp add: unat_div m)
  show "x * 256 div 8 = x * 32" using a m2 by (simp add: word_unat_eq_iff)
qed

lemma u32_complement_255:
  fixes x :: u32
  assumes "x \<le> 255"
  shows "unat (255 - x) = 255 - unat x"
proof -
  have "unat x \<le> 255" using assms by (simp add: word_le_nat_alt)
  then show ?thesis using assms by (simp add: unat_sub)
qed

lemma u32_complement_le_255:
  fixes x :: u32
  assumes "x \<le> 255"
  shows "255 - x \<le> 255"
  using assms by (simp add: word_sub_le)

lemma u32_complement_involutive:
  fixes x :: u32
  shows "255 - (255 - x) = x"
  by simp

text \<open>Channel numbers are reduced to eight bits; reduction keeps the parity.\<close>

lemma mod256_even_neq_odd: "(2 * (a::nat)) mod 256 \<noteq> (2 * b + 1) mod 256"
proof
  assume "(2 * a) mod 256 = (2 * b + 1) mod 256"
  then have "(2 * a) mod 256 mod 2 = (2 * b + 1) mod 256 mod 2" by simp
  then show False by (simp add: mod_mod_cancel)
qed

text \<open>A duty is printed as an \<open>int\<close>; below 256 it reads the same signed or unsigned.\<close>

lemma u32_sint_small: "(x::u32) \<le> 255 \<Longrightarrow> sint x = uint x"
proof -
  assume "x \<le> 255"
  then have "uint x \<le> 255" by (simp add: word_le_def)
  then have lt: "uint x < 2 ^ 31" by simp
  have ge: "- (2 ^ 31) \<le> uint x" by (rule order_trans [of _ 0]) simp_all
  have "signed_take_bit 31 (uint x) = uint x" by (rule signed_take_bit_int_eq_self [OF ge lt])
  then show ?thesis by (simp add: sint_uint)
qed

text \<open>Odd lamp numbers are tested with \<open>mod 2 = 1\<close> on \<open>unsigned int\<close>.\<close>

lemma u32_mod2_odd: "(n :: u32) mod 2 = 1 \<longleftrightarrow> odd (unat n)"
proof -
  have "unat (n mod 2) = unat n mod 2" by (simp add: unat_mod)
  then show ?thesis by (auto simp: word_unat_eq_iff odd_iff_mod_2_eq_one)
qed

lemma u32_double_mod2: "(2 * k :: u32) mod 2 = 0" "(2 * k + 1 :: u32) mod 2 = 1"
proof -
  have "unat ((2 * k :: u32) mod 2) = 0"
    by (simp add: unat_mod unat_word_ariths mod_mod_cancel)
  then show "(2 * k :: u32) mod 2 = 0" by (simp add: word_unat_eq_iff)
  have "odd (unat (2 * k + 1 :: u32))"
    by (simp add: unat_word_ariths mod_Suc_eq odd_iff_mod_2_eq_one mod_mod_cancel)
  then show "(2 * k + 1 :: u32) mod 2 = 1" by (simp add: u32_mod2_odd)
qed

text \<open>A state that one call leaves unchanged is unchanged by any number of calls.\<close>

lemma funpow_fixpoint: "f x = x \<Longrightarrow> (f ^^ k) x = x"
  by (induction k) simp_all

lemma u32_pos_iff: "(0::u32) < x \<longleftrightarrow> x \<noteq> 0"
  by (simp add: word_neq_0_conv)

end
