(* ===== verification/Hal.thy ===== *)
theory Hal
  imports Prelude
begin

text \<open>
  The hardware collaborator of \<open>src/libs/ft_ESP32_IOobjects.cpp\<close>: the Arduino-ESP32
  pin and LEDC (PWM) API that the I/O objects call, and the pin-assignment tables of
  the header \<open>ft_ESP32_IOobjects.h\<close>, which is not part of the sources. Both are
  modelled from the specification (its section 6): the API as operations on an
  explicit state record \<open>hal\<close>, the tables as a record \<open>board\<close> that every
  constructor receives. A C array read \<open>T[i]\<close> beyond the table is undefined
  behaviour in C++; here it is the error \<open>IndexOutOfRange\<close>.
\<close>

datatype pin_mode = OUTPUT | INPUT | INPUT_PULLUP

datatype level = LOW | HIGH

text \<open>What \<open>Serial.print\<close> emits: a text, a number printed in decimal, or the
  line end of \<open>Serial.println\<close>.\<close>

datatype log_item = Txt string | Num int | Eol

record hal =
  mode :: "pin \<Rightarrow> pin_mode option"
  dout :: "pin \<Rightarrow> level"
  pin_chan :: "pin \<Rightarrow> u8 option"
  chan_cfg :: "u8 \<Rightarrow> (nat \<times> nat) option"
  chan_duty :: "u8 \<Rightarrow> u32"
  din :: "pin \<Rightarrow> level"
  ain :: "pin \<Rightarrow> u32"
  serial :: "log_item list"

datatype error = IndexOutOfRange | Indeterminate

subsection \<open>The vendor API\<close>

definition pinMode :: "pin \<Rightarrow> pin_mode \<Rightarrow> hal \<Rightarrow> hal" where
  "pinMode p m h = h\<lparr>mode := (mode h)(p \<mapsto> m)\<rparr>"

definition digitalWrite :: "pin \<Rightarrow> level \<Rightarrow> hal \<Rightarrow> hal" where
  "digitalWrite p l h = h\<lparr>dout := (dout h)(p := l)\<rparr>"

definition digitalRead :: "hal \<Rightarrow> pin \<Rightarrow> level" where
  "digitalRead h p = din h p"

definition analogRead :: "hal \<Rightarrow> pin \<Rightarrow> u32" where
  "analogRead h p = ain h p"

definition ledcAttachPin :: "pin \<Rightarrow> u8 \<Rightarrow> hal \<Rightarrow> hal" where
  "ledcAttachPin p c h = h\<lparr>pin_chan := (pin_chan h)(p \<mapsto> c)\<rparr>"

definition ledcSetup :: "u8 \<Rightarrow> nat \<Rightarrow> nat \<Rightarrow> hal \<Rightarrow> hal" where
  "ledcSetup c freq bits h = h\<lparr>chan_cfg := (chan_cfg h)(c \<mapsto> (freq, bits))\<rparr>"

definition ledcWrite :: "u8 \<Rightarrow> u32 \<Rightarrow> hal \<Rightarrow> hal" where
  "ledcWrite c d h = h\<lparr>chan_duty := (chan_duty h)(c := d)\<rparr>"

definition serial_print :: "log_item \<Rightarrow> hal \<Rightarrow> hal" where
  "serial_print x h = h\<lparr>serial := serial h @ [x]\<rparr>"

definition serial_println :: "log_item \<Rightarrow> hal \<Rightarrow> hal" where
  "serial_println x h = h\<lparr>serial := serial h @ [x, Eol]\<rparr>"

text \<open>The state after power-on: no pin configured, every output low, no PWM channel
  attached or configured, every duty 0, an empty serial log; the input levels are the
  environment's.\<close>

definition power_on :: "(pin \<Rightarrow> level) \<Rightarrow> (pin \<Rightarrow> u32) \<Rightarrow> hal" where
  "power_on env_d env_a =
     \<lparr>mode = Map.empty, dout = (\<lambda>_. LOW), pin_chan = Map.empty, chan_cfg = Map.empty,
      chan_duty = (\<lambda>_. 0), din = env_d, ain = env_a, serial = []\<rparr>"

text \<open>The PWM signal a pin carries: the duty of the LEDC channel it is attached to.\<close>

definition pin_pwm :: "hal \<Rightarrow> pin \<Rightarrow> u32 option" where
  "pin_pwm h p = map_option (chan_duty h) (pin_chan h p)"

declare pinMode_def [hal_simps] digitalWrite_def [hal_simps] digitalRead_def [hal_simps]
  analogRead_def [hal_simps] ledcAttachPin_def [hal_simps] ledcSetup_def [hal_simps]
  ledcWrite_def [hal_simps] serial_print_def [hal_simps] serial_println_def [hal_simps]

subsection \<open>The pin-assignment tables\<close>

record board =
  PIN_M_INH :: pin
  PIN_L_INH :: pin
  PORT_M_PWM :: "pin list"
  PORT_M_DIR :: "pin list"
  PORT_L_PWM :: "pin list"
  PORT_IN :: "pin list"

text \<open>An example assignment (two motor driver channels, two inputs), used by the
  witnesses; the real numbers live in the header.\<close>

definition demo_board :: board where
  "demo_board = \<lparr>PIN_M_INH = 4, PIN_L_INH = 5, PORT_M_PWM = [12, 13], PORT_M_DIR = [14, 15],
                  PORT_L_PWM = [16, 17], PORT_IN = [32, 33]\<rparr>"

definition tbl_get :: "pin list \<Rightarrow> u32 \<Rightarrow> error + pin" where
  "tbl_get t i = (if unat i < length t then Inr (t ! unat i) else Inl IndexOutOfRange)"

lemma tbl_get_Inr_iff: "tbl_get t i = Inr p \<longleftrightarrow> unat i < length t \<and> p = t ! unat i"
  by (auto simp: tbl_get_def)

lemma tbl_get_Inl_iff: "(\<exists>e. tbl_get t i = Inl e) \<longleftrightarrow> length t \<le> unat i"
  by (auto simp: tbl_get_def)

subsection \<open>Frame facts\<close>

text \<open>Only \<open>ledcWrite\<close> changes a duty and only \<open>digitalWrite\<close> an output level;
  the serial log only grows.\<close>

lemma chan_duty_frame [simp]:
  "chan_duty (pinMode p m h) = chan_duty h"
  "chan_duty (digitalWrite p l h) = chan_duty h"
  "chan_duty (ledcAttachPin p c h) = chan_duty h"
  "chan_duty (ledcSetup c f b h) = chan_duty h"
  "chan_duty (serial_print x h) = chan_duty h"
  "chan_duty (serial_println x h) = chan_duty h"
  "chan_duty (ledcWrite c d h) = (chan_duty h)(c := d)"
  by (simp_all add: hal_simps)

lemma dout_frame [simp]:
  "dout (pinMode p m h) = dout h"
  "dout (digitalWrite p l h) = (dout h)(p := l)"
  "dout (ledcAttachPin p c h) = dout h"
  "dout (ledcSetup c f b h) = dout h"
  "dout (ledcWrite c d h) = dout h"
  "dout (serial_print x h) = dout h"
  "dout (serial_println x h) = dout h"
  by (simp_all add: hal_simps)

lemma inputs_frame [simp]:
  "din (pinMode p m h) = din h" "ain (pinMode p m h) = ain h"
  "din (digitalWrite p l h) = din h" "ain (digitalWrite p l h) = ain h"
  "din (ledcAttachPin p c h) = din h" "ain (ledcAttachPin p c h) = ain h"
  "din (ledcSetup c f b h) = din h" "ain (ledcSetup c f b h) = ain h"
  "din (ledcWrite c d h) = din h" "ain (ledcWrite c d h) = ain h"
  "din (serial_print x h) = din h" "ain (serial_print x h) = ain h"
  "din (serial_println x h) = din h" "ain (serial_println x h) = ain h"
  by (simp_all add: hal_simps)

end
