(* ===== verification/DutyCycle.thy ===== *)
theory DutyCycle
  imports Prelude
begin

text \<open>
  The value-to-duty-cycle conversion of the I/O objects. The source writes the clamp
  and scale twice: in \<open>Motor::setValues\<close> (branches \<open>< 1\<close>, \<open>> 7\<close>, scale) and in
  \<open>Lampe::setValues\<close> (branches \<open>> 7\<close>, \<open>< 1\<close>, scale). Both are translated as
  written, on \<open>unsigned int\<close> (\<open>u32\<close>): the scale \<open>x * 256 / 8\<close> is an unsigned
  product and quotient; the result is stored in an \<open>int\<close> and later passed to the
  \<open>uint32_t\<close> duty of \<open>ledcWrite\<close>, and the complement \<open>255 - pwm\<close> is an \<open>int\<close>
  subtraction of a value in 0..255, so 32-bit two's-complement arithmetic gives the same
  bits throughout.

  The abstract contract of the specification (section 4.1, \<open>DutyCycleMapper\<close>) is
  \<open>duty_cycle\<close> on natural numbers; the lemmas show that both copies of the code
  compute it, that they agree with each other, and that every result fits the 8-bit
  resolution the channels are configured with. \<open>duty_level\<close> reads a level back from a
  non-inverted duty, for the lamp round trip of theory \<open>Lampe\<close>.
\<close>

definition motor_pwm :: "u32 \<Rightarrow> u32" where
  "motor_pwm drehzahl =
     (if drehzahl < 1 then 0
      else if drehzahl > 7 then 255
      else drehzahl * 256 div 8)"

definition lampe_pwm :: "u32 \<Rightarrow> u32" where
  "lampe_pwm helligkeit =
     (if helligkeit > 7 then 255
      else if helligkeit < 1 then 0
      else helligkeit * 256 div 8)"

subsection \<open>The contract of the specification\<close>

definition duty_base :: "nat \<Rightarrow> nat" where
  "duty_base l = (if l < 1 then 0 else if l > 7 then 255 else l * 32)"

definition duty_cycle :: "nat \<Rightarrow> bool \<Rightarrow> nat" where
  "duty_cycle l invert = (if invert then 255 - duty_base l else duty_base l)"

text \<open>Reading a level back from a non-inverted duty: 255 is the clamp of levels from 8
  up, every other duty is a multiple of 32.\<close>

definition duty_level :: "u32 \<Rightarrow> nat" where
  "duty_level x = (if x = 255 then 8 else unat x div 32)"

lemma duty_base_le_255: "duty_base l \<le> 255"
  by (simp add: duty_base_def)

lemma duty_cycle_le_255: "duty_cycle l invert \<le> 255"
  by (simp add: duty_cycle_def duty_base_le_255)

subsection \<open>The code against the contract\<close>

lemma motor_pwm_cases:
  "motor_pwm 0 = 0"
  "7 < d \<Longrightarrow> motor_pwm d = 255"
  "0 < d \<Longrightarrow> d \<le> 7 \<Longrightarrow> motor_pwm d = d * 32"
  by (auto simp: motor_pwm_def u32_scale_eighth word_less_1 not_less)

lemma unat_motor_pwm: "unat (motor_pwm d) = duty_base (unat d)"
proof (cases "d = 0")
  case True
  then show ?thesis by (simp add: motor_pwm_def duty_base_def)
next
  case False
  then have pos: "0 < unat d" by (simp add: unat_gt_0)
  show ?thesis
  proof (cases "7 < d")
    case True
    then have "7 < unat d" by (simp add: word_less_nat_alt)
    with True show ?thesis by (simp add: motor_pwm_cases duty_base_def)
  next
    case le: False
    then have "d \<le> 7" by simp
    then have "unat d \<le> 7" by (simp add: word_le_nat_alt)
    with pos le False show ?thesis
      by (simp add: motor_pwm_def duty_base_def u32_scale_eighth(1) word_less_1 not_less)
  qed
qed

lemma duty_level_base:
  "duty_level x = min l 8" if "unat x = duty_base l"
proof -
  have "x = 255 \<longleftrightarrow> unat x = 255" by (simp add: word_unat_eq_iff)
  then show ?thesis using that by (auto simp: duty_level_def duty_base_def)
qed

lemma lampe_pwm_eq_motor_pwm: "lampe_pwm x = motor_pwm x"
  by (auto simp: lampe_pwm_def motor_pwm_def word_less_1)

lemma motor_pwm_le_255: "motor_pwm d \<le> 255"
proof -
  have "unat (motor_pwm d) \<le> 255" by (simp add: unat_motor_pwm duty_base_le_255)
  then show ?thesis by (simp add: word_le_nat_alt)
qed

lemma unat_complement_motor_pwm: "unat (255 - motor_pwm d) = 255 - duty_base (unat d)"
  by (simp add: u32_complement_255 motor_pwm_le_255 unat_motor_pwm)

subsection \<open>Properties of the conversion\<close>

text \<open>C5. The two copies of the clamp-and-scale code agree on every input: testing
  \<open>> 7\<close> before \<open>< 1\<close> (the lamp's order) gives the motor's function.\<close>

theorem lampe_pwm_equiv: "lampe_pwm = motor_pwm"
proof
  fix x :: u32
  show "lampe_pwm x = motor_pwm x"
    by (auto simp: lampe_pwm_def motor_pwm_def word_less_1)
qed

text \<open>C6. Step 1 of the contract, on the code's \<open>unsigned int\<close>: levels below 1 give 0,
  levels above 7 give 255, and levels 1 to 7 give exactly \<open>level * 32\<close>, without wrap.\<close>

theorem motor_pwm_spec:
  "unat (motor_pwm d) = (if unat d < 1 then 0 else if 7 < unat d then 255 else unat d * 32)"
  using unat_motor_pwm [of d] by (simp add: duty_base_def)

end
