(* ===== verification/Motor.thy ===== *)
theory Motor
  imports Hal DutyCycle
begin

text \<open>
  The class \<open>Motor\<close> of \<open>src/libs/ft_ESP32_IOobjects.cpp\<close> (lines 20--124). A motor
  object holds its number, its two pins and its last commanded direction and speed
  (record \<open>motor\<close>). Motor \<open>n\<close> drives its speed pin from LEDC channel \<open>2n\<close> and its
  direction pin from channel \<open>2n+1\<close>; the product is computed in \<open>unsigned int\<close> and
  converted to the API's \<open>uint8_t\<close> channel parameter (\<open>ucast\<close>). All motors share
  the driver-inhibit pin \<open>PIN_M_INH\<close>: every constructor drives it low, every
  \<open>setValues\<close> drives it high. The operations take the pin tables \<open>B\<close> and the
  hardware state \<open>h\<close> and return the object and the new hardware state.
\<close>

record motor =
  mMotorNr :: u32
  mPortNrPWM :: pin
  mPortNrDir :: pin
  mRechtslauf :: bool
  mDrehzahl :: u32

definition motor_chan_pwm :: "u32 \<Rightarrow> u8" where
  "motor_chan_pwm nr = ucast (nr * 2)"

definition motor_chan_dir :: "u32 \<Rightarrow> u8" where
  "motor_chan_dir nr = ucast (nr * 2 + 1)"

text \<open>\<open>Motor::Motor()\<close>: switches the driver off and leaves the pins unattached.\<close>

definition Motor_default :: "board \<Rightarrow> hal \<Rightarrow> motor \<times> hal" where
  "Motor_default B h =
     (let h1 = pinMode (PIN_M_INH B) OUTPUT h;
          h2 = digitalWrite (PIN_M_INH B) LOW h1
      in (\<lparr>mMotorNr = 0, mPortNrPWM = 0, mPortNrDir = 0, mRechtslauf = True, mDrehzahl = 0\<rparr>, h2))"

text \<open>\<open>Motor::Motor(unsigned int motorNr)\<close>.\<close>

definition Motor :: "board \<Rightarrow> u32 \<Rightarrow> hal \<Rightarrow> error + motor \<times> hal" where
  "Motor B motorNr h =
     (let h1 = pinMode (PIN_M_INH B) OUTPUT h;
          h2 = digitalWrite (PIN_M_INH B) LOW h1
      in case tbl_get (PORT_M_PWM B) motorNr of
           Inl e \<Rightarrow> Inl e
         | Inr pwm \<Rightarrow>
           (case tbl_get (PORT_M_DIR B) motorNr of
              Inl e \<Rightarrow> Inl e
            | Inr dir \<Rightarrow>
                let m = \<lparr>mMotorNr = motorNr, mPortNrPWM = pwm, mPortNrDir = dir,
                         mRechtslauf = True, mDrehzahl = 0\<rparr>;
                    h3 = ledcAttachPin pwm (motor_chan_pwm motorNr) h2;
                    h4 = ledcSetup (motor_chan_pwm motorNr) 21700 8 h3;
                    h5 = ledcAttachPin dir (motor_chan_dir motorNr) h4;
                    h6 = ledcSetup (motor_chan_dir motorNr) 21700 8 h5;
                    h7 = ledcWrite (motor_chan_pwm motorNr) 0 h6;
                    h8 = ledcWrite (motor_chan_dir motorNr) 255 h7
                in Inr (m, h8)))"

text \<open>The two values \<open>setValues\<close> writes: the direction channel is full scale
  forward and 0 backward; the speed value is complemented backward.\<close>

definition motor_dir_duty :: "bool \<Rightarrow> u32" where
  "motor_dir_duty rechtslauf = (if rechtslauf then 255 else 0)"

definition motor_speed_duty :: "bool \<Rightarrow> u32 \<Rightarrow> u32" where
  "motor_speed_duty rechtslauf drehzahl =
     (let drehzahl_pwm = motor_pwm drehzahl
      in if rechtslauf then drehzahl_pwm else 255 - drehzahl_pwm)"

definition bool_num :: "bool \<Rightarrow> log_item" where
  "bool_num b = Num (if b then 1 else 0)"

text \<open>\<open>Motor::setValues(bool rechtslauf, unsigned int drehzahl)\<close>: store the values,
  log them, write the direction channel, then the speed channel, then enable the driver
  and log the pins and the value written.\<close>

definition motor_setValues :: "board \<Rightarrow> motor \<Rightarrow> bool \<Rightarrow> u32 \<Rightarrow> hal \<Rightarrow> motor \<times> hal" where
  "motor_setValues B m rechtslauf drehzahl h =
     (let m1 = m\<lparr>mRechtslauf := rechtslauf, mDrehzahl := drehzahl\<rparr>;
          h1 = serial_print (Txt ''Motor '') h;
          h2 = serial_print (Num (uint (mMotorNr m1))) h1;
          h3 = serial_print (Txt '' dreht in Richtung '') h2;
          h4 = serial_print (bool_num (mRechtslauf m1)) h3;
          h5 = serial_print (Txt '' mit Drehzahl '') h4;
          h6 = serial_println (Num (uint (mDrehzahl m1))) h5;
          drehzahl_pwm = motor_speed_duty (mRechtslauf m1) (mDrehzahl m1);
          h7 = ledcWrite (motor_chan_dir (mMotorNr m1)) (motor_dir_duty (mRechtslauf m1)) h6;
          h8 = ledcWrite (motor_chan_pwm (mMotorNr m1)) drehzahl_pwm h7;
          h9 = digitalWrite (PIN_M_INH B) HIGH h8;
          h10 = serial_print (Txt ''Dir: '') h9;
          h11 = serial_print (Num (int (mPortNrDir m1))) h10;
          h12 = serial_print (Txt '' PWM: '') h11;
          h13 = serial_print (Num (int (mPortNrPWM m1))) h12;
          h14 = serial_print (Txt '' Val: '') h13;
          h15 = serial_println (Num (sint drehzahl_pwm)) h14
      in (m1, h15))"

text \<open>\<open>Motor::reRun()\<close>: repeat the last command, but only for a nonzero speed.\<close>

definition motor_reRun :: "board \<Rightarrow> motor \<Rightarrow> hal \<Rightarrow> motor \<times> hal" where
  "motor_reRun B m h =
     (if mDrehzahl m > 0 then motor_setValues B m (mRechtslauf m) (mDrehzahl m) h else (m, h))"

subsection \<open>What the hardware holds for a motor\<close>

definition motor_reflects :: "motor \<Rightarrow> hal \<Rightarrow> bool" where
  "motor_reflects m h \<longleftrightarrow>
     chan_duty h (motor_chan_pwm (mMotorNr m)) = motor_speed_duty (mRechtslauf m) (mDrehzahl m)
     \<and> chan_duty h (motor_chan_dir (mMotorNr m)) = motor_dir_duty (mRechtslauf m)"

subsection \<open>Effects of the operations\<close>

lemma motor_setValues_obj [simp]:
  "fst (motor_setValues B m r d h) = m\<lparr>mRechtslauf := r, mDrehzahl := d\<rparr>"
  by (simp add: motor_setValues_def Let_def)

lemma motor_setValues_duty [simp]:
  "chan_duty (snd (motor_setValues B m r d h)) =
     (chan_duty h)(motor_chan_dir (mMotorNr m) := motor_dir_duty r,
                   motor_chan_pwm (mMotorNr m) := motor_speed_duty r d)"
  by (simp add: motor_setValues_def Let_def)

lemma motor_setValues_dout [simp]:
  "dout (snd (motor_setValues B m r d h)) = (dout h)(PIN_M_INH B := HIGH)"
  by (simp add: motor_setValues_def Let_def)

lemma motor_setValues_frame [simp]:
  "pin_chan (snd (motor_setValues B m r d h)) = pin_chan h"
  "chan_cfg (snd (motor_setValues B m r d h)) = chan_cfg h"
  "mode (snd (motor_setValues B m r d h)) = mode h"
  "din (snd (motor_setValues B m r d h)) = din h"
  "ain (snd (motor_setValues B m r d h)) = ain h"
  by (simp_all add: motor_setValues_def Let_def hal_simps)

lemma Motor_default_effect [simp]:
  "fst (Motor_default B h) =
     \<lparr>mMotorNr = 0, mPortNrPWM = 0, mPortNrDir = 0, mRechtslauf = True, mDrehzahl = 0\<rparr>"
  "chan_duty (snd (Motor_default B h)) = chan_duty h"
  "pin_chan (snd (Motor_default B h)) = pin_chan h"
  "dout (snd (Motor_default B h)) = (dout h)(PIN_M_INH B := LOW)"
  by (simp_all add: Motor_default_def Let_def hal_simps)

text \<open>A successful construction: the object with the table entries, both channels
  attached and configured for 8 bits at 21.7 kHz, the speed channel at 0, the
  direction channel at full scale, and the driver inhibited.\<close>

lemma Motor_InrD:
  assumes "Motor B n h = Inr (m, h')"
  shows "unat n < length (PORT_M_PWM B)" and "unat n < length (PORT_M_DIR B)"
    and "m = \<lparr>mMotorNr = n, mPortNrPWM = PORT_M_PWM B ! unat n, mPortNrDir = PORT_M_DIR B ! unat n,
              mRechtslauf = True, mDrehzahl = 0\<rparr>"
    and "chan_duty h' = (chan_duty h)(motor_chan_pwm n := 0, motor_chan_dir n := 255)"
    and "dout h' = (dout h)(PIN_M_INH B := LOW)"
    and "pin_chan h' = (pin_chan h)(PORT_M_PWM B ! unat n \<mapsto> motor_chan_pwm n,
                                    PORT_M_DIR B ! unat n \<mapsto> motor_chan_dir n)"
    and "chan_cfg h' = (chan_cfg h)(motor_chan_pwm n \<mapsto> (21700, 8), motor_chan_dir n \<mapsto> (21700, 8))"
  using assms by (auto simp: Motor_def Let_def tbl_get_def hal_simps split: if_splits)

lemma Motor_Inl_iff:
  "(\<exists>e. Motor B n h = Inl e) \<longleftrightarrow> length (PORT_M_PWM B) \<le> unat n \<or> length (PORT_M_DIR B) \<le> unat n"
  by (auto simp: Motor_def Let_def tbl_get_def split: sum.splits)

lemma Motor_Inl_index: "Motor B n h = Inl e \<Longrightarrow> e = IndexOutOfRange"
  by (auto simp: Motor_def Let_def tbl_get_def split: sum.splits if_splits)

lemma motor_reRun_cases:
  "mDrehzahl m = 0 \<Longrightarrow> motor_reRun B m h = (m, h)"
  "mDrehzahl m \<noteq> 0 \<Longrightarrow> motor_reRun B m h = motor_setValues B m (mRechtslauf m) (mDrehzahl m) h"
  by (simp_all add: motor_reRun_def word_neq_0_conv)

subsection \<open>Channel numbering\<close>

text \<open>The channel numbers are \<open>2n\<close> and \<open>2n+1\<close> reduced to eight bits: the speed
  channel is even, the direction channel odd, and motors below 128 get distinct
  channels.\<close>

lemma unat_motor_chan_pwm: "unat (motor_chan_pwm n) = 2 * unat n mod 256"
proof -
  have "unat (motor_chan_pwm n) = unat (n * 2) mod 2 ^ 8"
    by (simp add: motor_chan_pwm_def unsigned_ucast_eq take_bit_eq_mod)
  also have "unat (n * 2) = (unat n * 2) mod 2 ^ 32" by (simp add: unat_word_ariths)
  finally show ?thesis by (simp add: mod_mod_cancel mult.commute)
qed

lemma unat_motor_chan_dir: "unat (motor_chan_dir n) = (2 * unat n + 1) mod 256"
proof -
  have "unat (motor_chan_dir n) = unat (n * 2 + 1) mod 2 ^ 8"
    by (simp add: motor_chan_dir_def unsigned_ucast_eq take_bit_eq_mod)
  also have "unat (n * 2 + 1) = (unat n * 2 + 1) mod 2 ^ 32" by (simp add: unat_word_ariths mod_Suc_eq)
  finally show ?thesis by (simp add: mod_mod_cancel mult.commute)
qed

lemma motor_chan_pwm_neq_dir [simp]: "motor_chan_pwm n \<noteq> motor_chan_dir k"
proof
  assume "motor_chan_pwm n = motor_chan_dir k"
  then have "2 * unat n mod 256 = (2 * unat k + 1) mod 256"
    by (metis unat_motor_chan_pwm unat_motor_chan_dir)
  then show False using mod256_even_neq_odd by blast
qed

lemma motor_chan_dir_neq_pwm [simp]: "motor_chan_dir n \<noteq> motor_chan_pwm k"
  using motor_chan_pwm_neq_dir by metis

lemma motor_chan_inj:
  assumes "unat n < 128" and "unat k < 128"
  shows "motor_chan_pwm n = motor_chan_pwm k \<longleftrightarrow> n = k"
    and "motor_chan_dir n = motor_chan_dir k \<longleftrightarrow> n = k"
proof -
  have "motor_chan_pwm n = motor_chan_pwm k \<longleftrightarrow> unat n = unat k"
    using assms by (simp add: word_unat_eq_iff unat_motor_chan_pwm)
  then show "motor_chan_pwm n = motor_chan_pwm k \<longleftrightarrow> n = k" by (simp add: word_unat_eq_iff)
  have "motor_chan_dir n = motor_chan_dir k \<longleftrightarrow> unat n = unat k"
    using assms by (simp add: word_unat_eq_iff unat_motor_chan_dir)
  then show "motor_chan_dir n = motor_chan_dir k \<longleftrightarrow> n = k" by (simp add: word_unat_eq_iff)
qed

subsection \<open>The values written\<close>

lemma unat_motor_speed_duty: "unat (motor_speed_duty r d) = duty_cycle (unat d) (\<not> r)"
  by (simp add: motor_speed_duty_def duty_cycle_def unat_motor_pwm unat_complement_motor_pwm)

lemma motor_speed_duty_le_255: "motor_speed_duty r d \<le> 255"
  by (simp add: motor_speed_duty_def Let_def motor_pwm_le_255 u32_complement_le_255)

lemma motor_dir_duty_le_255: "motor_dir_duty r \<le> 255"
  by (simp add: motor_dir_duty_def)

lemma motor_reflects_setValues:
  "motor_reflects (fst (motor_setValues B m r d h)) (snd (motor_setValues B m r d h))"
  by (simp add: motor_reflects_def)

lemma motor_reflects_Motor:
  assumes "Motor B n h = Inr (m, h')"
  shows "motor_reflects m h'"
proof -
  note D = Motor_InrD [OF assms]
  show ?thesis
    by (simp add: motor_reflects_def D(3,4) motor_speed_duty_def motor_dir_duty_def motor_pwm_cases)
qed

lemma motor_reRun_reflecting:
  assumes "motor_reflects m h" and "0 < mDrehzahl m"
  shows "fst (motor_reRun B m h) = m" and "chan_duty (snd (motor_reRun B m h)) = chan_duty h"
    and "dout (snd (motor_reRun B m h)) = (dout h)(PIN_M_INH B := HIGH)"
proof -
  have run: "motor_reRun B m h = motor_setValues B m (mRechtslauf m) (mDrehzahl m) h"
    using assms(2) by (simp add: motor_reRun_def)
  have "(chan_duty h)(motor_chan_dir (mMotorNr m) := motor_dir_duty (mRechtslauf m),
          motor_chan_pwm (mMotorNr m) := motor_speed_duty (mRechtslauf m) (mDrehzahl m)) = chan_duty h"
    using assms(1) by (simp add: motor_reflects_def fun_upd_idem)
  then show "fst (motor_reRun B m h) = m" and "chan_duty (snd (motor_reRun B m h)) = chan_duty h"
    and "dout (snd (motor_reRun B m h)) = (dout h)(PIN_M_INH B := HIGH)"
    by (simp_all add: run)
qed

subsection \<open>Properties of the motor\<close>

text \<open>C1. \<open>Motor::setValues\<close> implements the duty-cycle contract: the speed channel
  receives the contract's value for the commanded speed, inverted when running
  backward; the direction channel receives full scale forward and 0 backward; the
  driver is enabled; the object keeps the command.\<close>

theorem motor_setValues_refines:
  "unat (chan_duty (snd (motor_setValues B m r d h)) (motor_chan_pwm (mMotorNr m)))
     = duty_cycle (unat d) (\<not> r)
   \<and> chan_duty (snd (motor_setValues B m r d h)) (motor_chan_dir (mMotorNr m)) = (if r then 255 else 0)
   \<and> dout (snd (motor_setValues B m r d h)) (PIN_M_INH B) = HIGH
   \<and> fst (motor_setValues B m r d h) = m\<lparr>mRechtslauf := r, mDrehzahl := d\<rparr>"
  by (simp add: unat_motor_speed_duty motor_dir_duty_def)

text \<open>C7. Refresh: re-running a motor whose channels already hold its command and whose
  speed is nonzero rewrites the same duties, changes no channel, keeps the object, and
  enables the driver again.\<close>

theorem motor_reRun_refresh:
  assumes "motor_reflects m h" and "0 < mDrehzahl m"
  shows "fst (motor_reRun B m h) = m \<and> chan_duty (snd (motor_reRun B m h)) = chan_duty h
    \<and> dout (snd (motor_reRun B m h)) (PIN_M_INH B) = HIGH"
  using motor_reRun_reflecting [OF assms] by simp

theorem motor_reRun_refresh_witness:
  "motor_reflects \<lparr>mMotorNr = 1, mPortNrPWM = 13, mPortNrDir = 15, mRechtslauf = False, mDrehzahl = 3\<rparr>
      (snd (motor_setValues demo_board
              \<lparr>mMotorNr = 1, mPortNrPWM = 13, mPortNrDir = 15, mRechtslauf = False, mDrehzahl = 3\<rparr>
              False 3 (power_on (\<lambda>_. LOW) (\<lambda>_. 0))))
   \<and> dout (snd (motor_reRun demo_board
        \<lparr>mMotorNr = 1, mPortNrPWM = 13, mPortNrDir = 15, mRechtslauf = False, mDrehzahl = 3\<rparr>
        (snd (motor_setValues demo_board
              \<lparr>mMotorNr = 1, mPortNrPWM = 13, mPortNrDir = 15, mRechtslauf = False, mDrehzahl = 3\<rparr>
              False 3 (power_on (\<lambda>_. LOW) (\<lambda>_. 0)))))) (PIN_M_INH demo_board) = HIGH"
proof -
  let ?m = "\<lparr>mMotorNr = 1, mPortNrPWM = 13, mPortNrDir = 15, mRechtslauf = False, mDrehzahl = 3\<rparr>"
  let ?h = "snd (motor_setValues demo_board ?m False 3 (power_on (\<lambda>_. LOW) (\<lambda>_. 0)))"
  have refl: "motor_reflects ?m ?h"
    using motor_reflects_setValues [of demo_board ?m False 3 "power_on (\<lambda>_. LOW) (\<lambda>_. 0)"] by simp
  have pos: "0 < mDrehzahl ?m" by simp
  have "dout (snd (motor_reRun demo_board ?m ?h)) (PIN_M_INH demo_board) = HIGH"
    using motor_reRun_refresh [OF refl pos, of demo_board] by blast
  with refl show ?thesis by blast
qed

text \<open>C9. \<open>Motor::reRun\<close> does nothing for a motor whose last speed is 0, however
  often it is called: it writes no channel and does not drive the inhibit pin high, so a
  driver inhibited by a sibling's constructor stays inhibited.\<close>

theorem motor_reRun_stopped:
  "mDrehzahl m = 0 \<Longrightarrow> ((\<lambda>(m, h). motor_reRun B m h) ^^ k) (m, h) = (m, h)"
  by (rule funpow_fixpoint) (simp add: motor_reRun_def)

theorem motor_reRun_stopped_witness:
  "mDrehzahl \<lparr>mMotorNr = 0, mPortNrPWM = 12, mPortNrDir = 14, mRechtslauf = False, mDrehzahl = 0\<rparr> = 0
   \<and> dout (snd (((\<lambda>(m, h). motor_reRun demo_board m h) ^^ 3)
        (\<lparr>mMotorNr = 0, mPortNrPWM = 12, mPortNrDir = 14, mRechtslauf = False, mDrehzahl = 0\<rparr>,
         power_on (\<lambda>_. LOW) (\<lambda>_. 0)))) 4 = LOW"
  using motor_reRun_stopped [where m = "\<lparr>mMotorNr = 0, mPortNrPWM = 12, mPortNrDir = 14,
      mRechtslauf = False, mDrehzahl = 0\<rparr>" and B = demo_board and k = 3
      and h = "power_on (\<lambda>_. LOW) (\<lambda>_. 0)"]
  by (simp add: power_on_def)

text \<open>C11. A constructed motor is stopped and forward, its channels are configured for
  8 bits at 21.7 kHz and already hold the values of that state, and the driver of all
  motors is inhibited.\<close>

theorem Motor_constructs:
  assumes "Motor B n h = Inr (m, h')"
  shows "dout h' (PIN_M_INH B) = LOW \<and> mMotorNr m = n \<and> mRechtslauf m \<and> mDrehzahl m = 0
    \<and> motor_reflects m h'
    \<and> chan_cfg h' (motor_chan_pwm n) = Some (21700, 8) \<and> chan_cfg h' (motor_chan_dir n) = Some (21700, 8)"
proof -
  note D = Motor_InrD [OF assms]
  show ?thesis using motor_reflects_Motor [OF assms] by (simp add: D(3,5,7))
qed

theorem Motor_constructs_witness:
  "case Motor demo_board 1 (power_on (\<lambda>_. LOW) (\<lambda>_. 0)) of
     Inl e \<Rightarrow> False
   | Inr (m, h') \<Rightarrow> dout h' 4 = LOW \<and> motor_reflects m h'"
proof -
  obtain m h' where c: "Motor demo_board 1 (power_on (\<lambda>_. LOW) (\<lambda>_. 0)) = Inr (m, h')"
    by (simp add: Motor_def demo_board_def tbl_get_def Let_def)
  from Motor_constructs [OF c] c show ?thesis by (simp add: demo_board_def)
qed

text \<open>C14. Two different motors numbered below 128 use four different LEDC channels
  (channel numbers are reduced to the API's eight bits).\<close>

theorem motor_channels_disjoint:
  "unat n < 128 \<Longrightarrow> unat k < 128 \<Longrightarrow> n \<noteq> k \<Longrightarrow>
   {motor_chan_pwm n, motor_chan_dir n} \<inter> {motor_chan_pwm k, motor_chan_dir k} = {}"
  by (simp add: motor_chan_inj)

theorem motor_channels_disjoint_witness:
  "unat (0::u32) < 128 \<and> unat (1::u32) < 128 \<and> (0::u32) \<noteq> 1 \<and>
   {motor_chan_pwm 0, motor_chan_dir 0} \<inter> {motor_chan_pwm 1, motor_chan_dir 1} = {}"
  using motor_channels_disjoint [of 0 1] by simp

text \<open>C15. The constructor fails exactly when the motor number is beyond one of the two
  pin tables it reads, and then with \<open>IndexOutOfRange\<close>.\<close>

theorem Motor_index_error:
  "Motor B n h = Inl e \<longleftrightarrow>
     e = IndexOutOfRange \<and> (length (PORT_M_PWM B) \<le> unat n \<or> length (PORT_M_DIR B) \<le> unat n)"
  by (auto simp: Motor_def Let_def tbl_get_def split: sum.splits)

text \<open>C19. The serial trace of \<open>setValues\<close> ends with exactly the value written to the
  speed channel.\<close>

theorem motor_setValues_logs_duty:
  "\<exists>pre. serial (snd (motor_setValues B m r d h)) =
     serial h @ pre @ [Num (uint (chan_duty (snd (motor_setValues B m r d h)) (motor_chan_pwm (mMotorNr m)))), Eol]"
proof -
  have "sint (motor_speed_duty r d) = uint (motor_speed_duty r d)"
    by (rule u32_sint_small [OF motor_speed_duty_le_255])
  then show ?thesis by (simp add: motor_setValues_def Let_def hal_simps)
qed

text \<open>C21. After construction the motor's speed pin carries the PWM of a 0 duty and its
  direction pin that of a full-scale duty (forward), provided the table gives the motor
  two different pins.\<close>

theorem Motor_drives_pins:
  assumes "Motor B n h = Inr (m, h')" and "PORT_M_PWM B ! unat n \<noteq> PORT_M_DIR B ! unat n"
  shows "pin_pwm h' (mPortNrPWM m) = Some 0 \<and> pin_pwm h' (mPortNrDir m) = Some 255"
proof -
  note D = Motor_InrD [OF assms(1)]
  show ?thesis using assms(2) by (simp add: pin_pwm_def D(3,4,6))
qed

theorem Motor_drives_pins_witness:
  "case Motor demo_board 0 (power_on (\<lambda>_. LOW) (\<lambda>_. 0)) of
     Inl e \<Rightarrow> False
   | Inr (m, h') \<Rightarrow> pin_pwm h' 12 = Some 0 \<and> pin_pwm h' 14 = Some 255"
proof -
  obtain m h' where c: "Motor demo_board 0 (power_on (\<lambda>_. LOW) (\<lambda>_. 0)) = Inr (m, h')"
    by (simp add: Motor_def demo_board_def tbl_get_def Let_def)
  have ne: "PORT_M_PWM demo_board ! unat (0::u32) \<noteq> PORT_M_DIR demo_board ! unat (0::u32)"
    by (simp add: demo_board_def)
  have "mPortNrPWM m = 12" and "mPortNrDir m = 14"
    using Motor_InrD(3) [OF c] by (simp_all add: demo_board_def)
  with Motor_drives_pins [OF c ne] c show ?thesis by simp
qed

text \<open>C22. A motor made by the default constructor attaches no pin, and its
  \<open>setValues\<close> writes the channels of motor 0.\<close>

theorem Motor_default_aliases_motor0:
  "pin_chan (snd (Motor_default B h)) = pin_chan h
   \<and> chan_duty (snd (motor_setValues B (fst (Motor_default B h)) r d h')) =
       (chan_duty h')(motor_chan_dir 0 := motor_dir_duty r, motor_chan_pwm 0 := motor_speed_duty r d)"
  by simp

end
