(* ===== verification/Lampe.thy ===== *)
theory Lampe
  imports Hal DutyCycle
begin

text \<open>
  The class \<open>Lampe\<close> of \<open>src/libs/ft_ESP32_IOobjects.cpp\<close> (lines 126--218). Lamp
  \<open>n\<close> uses LEDC channel \<open>n\<close> (the \<open>unsigned int\<close> number converted to the API's
  \<open>uint8_t\<close>). Even lamps drive pin \<open>PORT_L_PWM[n/2]\<close>, odd lamps pin
  \<open>PORT_M_DIR[n/2]\<close>, and the driver inverts the PWM of odd lamps (255 is off). All lamps
  share the inhibit pin \<open>PIN_L_INH\<close>: constructors drive it low, \<open>setValues\<close> high.
  The member \<open>mPortNrPWM\<close> of \<open>Lampe\<close> is the field \<open>mLampePortNrPWM\<close>, since record
  fields share one name space with those of \<open>motor\<close>.
\<close>

record lampe =
  mLampeNr :: u32
  mLampePortNrPWM :: pin
  mHelligkeit :: u32

definition lampe_chan :: "u32 \<Rightarrow> u8" where
  "lampe_chan nr = ucast nr"

text \<open>The pin row a lamp's pin comes from: the PWM row for even lamps, the motors'
  direction row for odd ones.\<close>

definition lampe_port :: "board \<Rightarrow> u32 \<Rightarrow> pin list" where
  "lampe_port B n = (if n mod 2 = 0 then PORT_L_PWM B else PORT_M_DIR B)"

text \<open>\<open>Lampe::Lampe()\<close>.\<close>

definition Lampe_default :: "board \<Rightarrow> hal \<Rightarrow> lampe \<times> hal" where
  "Lampe_default B h =
     (let h1 = pinMode (PIN_L_INH B) OUTPUT h;
          h2 = digitalWrite (PIN_L_INH B) LOW h1
      in (\<lparr>mLampeNr = 0, mLampePortNrPWM = 0, mHelligkeit = 0\<rparr>, h2))"

text \<open>\<open>Lampe::Lampe(unsigned int lampeNr)\<close>: the pin comes from the PWM row for even
  lamps and from the direction row for odd ones; the channel is set up and written 0.\<close>

definition Lampe :: "board \<Rightarrow> u32 \<Rightarrow> hal \<Rightarrow> error + lampe \<times> hal" where
  "Lampe B lampeNr h =
     (let h1 = pinMode (PIN_L_INH B) OUTPUT h;
          h2 = digitalWrite (PIN_L_INH B) LOW h1;
          port = (if lampeNr mod 2 = 0 then tbl_get (PORT_L_PWM B) (lampeNr div 2)
                  else tbl_get (PORT_M_DIR B) (lampeNr div 2))
      in case port of
           Inl e \<Rightarrow> Inl e
         | Inr pwm \<Rightarrow>
             let l = \<lparr>mLampeNr = lampeNr, mLampePortNrPWM = pwm, mHelligkeit = 0\<rparr>;
                 h3 = ledcAttachPin pwm (lampe_chan lampeNr) h2;
                 h4 = ledcSetup (lampe_chan lampeNr) 21700 8 h3;
                 h5 = ledcWrite (lampe_chan lampeNr) 0 h4
             in Inr (l, h5))"

text \<open>The value \<open>setValues\<close> writes: the clamped and scaled brightness, complemented
  on odd lamps.\<close>

definition lampe_duty :: "u32 \<Rightarrow> u32 \<Rightarrow> u32" where
  "lampe_duty lampeNr helligkeit =
     (let helligkeit_pwm = lampe_pwm helligkeit
      in if lampeNr mod 2 = 1 then 255 - helligkeit_pwm else helligkeit_pwm)"

text \<open>\<open>Lampe::setValues(unsigned int helligkeit)\<close>.\<close>

definition lampe_setValues :: "board \<Rightarrow> lampe \<Rightarrow> u32 \<Rightarrow> hal \<Rightarrow> lampe \<times> hal" where
  "lampe_setValues B l helligkeit h =
     (let l1 = l\<lparr>mHelligkeit := helligkeit\<rparr>;
          h1 = serial_print (Txt ''Lampe '') h;
          h2 = serial_print (Num (uint (mLampeNr l1))) h1;
          h3 = serial_print (Txt '' leuchtet mit Helligkeit '') h2;
          h4 = serial_println (Num (uint (mHelligkeit l1))) h3;
          helligkeit_pwm = lampe_duty (mLampeNr l1) (mHelligkeit l1);
          h5 = ledcWrite (lampe_chan (mLampeNr l1)) helligkeit_pwm h4;
          h6 = digitalWrite (PIN_L_INH B) HIGH h5;
          h7 = serial_print (Txt ''PWM: '') h6;
          h8 = serial_print (Num (int (mLampePortNrPWM l1))) h7;
          h9 = serial_print (Txt '' Val: '') h8;
          h10 = serial_println (Num (sint helligkeit_pwm)) h9
      in (l1, h10))"

text \<open>\<open>Lampe::reRun()\<close>.\<close>

definition lampe_reRun :: "board \<Rightarrow> lampe \<Rightarrow> hal \<Rightarrow> lampe \<times> hal" where
  "lampe_reRun B l h =
     (if mHelligkeit l > 0 then lampe_setValues B l (mHelligkeit l) h else (l, h))"

definition lampe_reflects :: "lampe \<Rightarrow> hal \<Rightarrow> bool" where
  "lampe_reflects l h \<longleftrightarrow>
     chan_duty h (lampe_chan (mLampeNr l)) = lampe_duty (mLampeNr l) (mHelligkeit l)"


subsection \<open>Effects of the operations\<close>

lemma lampe_setValues_obj [simp]:
  "fst (lampe_setValues B l x h) = l\<lparr>mHelligkeit := x\<rparr>"
  by (simp add: lampe_setValues_def Let_def)

lemma lampe_setValues_duty [simp]:
  "chan_duty (snd (lampe_setValues B l x h)) =
     (chan_duty h)(lampe_chan (mLampeNr l) := lampe_duty (mLampeNr l) x)"
  by (simp add: lampe_setValues_def Let_def)

lemma lampe_setValues_dout [simp]:
  "dout (snd (lampe_setValues B l x h)) = (dout h)(PIN_L_INH B := HIGH)"
  by (simp add: lampe_setValues_def Let_def)

lemma lampe_setValues_frame [simp]:
  "pin_chan (snd (lampe_setValues B l x h)) = pin_chan h"
  "chan_cfg (snd (lampe_setValues B l x h)) = chan_cfg h"
  "mode (snd (lampe_setValues B l x h)) = mode h"
  "din (snd (lampe_setValues B l x h)) = din h"
  "ain (snd (lampe_setValues B l x h)) = ain h"
  by (simp_all add: lampe_setValues_def Let_def hal_simps)

lemma Lampe_InrD:
  assumes "Lampe B n h = Inr (l, h')"
  shows "unat (n div 2) < length (lampe_port B n)"
    and "l = \<lparr>mLampeNr = n, mLampePortNrPWM = lampe_port B n ! unat (n div 2), mHelligkeit = 0\<rparr>"
    and "chan_duty h' = (chan_duty h)(lampe_chan n := 0)"
    and "dout h' = (dout h)(PIN_L_INH B := LOW)"
    and "pin_chan h' = (pin_chan h)(lampe_port B n ! unat (n div 2) \<mapsto> lampe_chan n)"
    and "chan_cfg h' = (chan_cfg h)(lampe_chan n \<mapsto> (21700, 8))"
  using assms
  by (auto simp: Lampe_def lampe_port_def Let_def tbl_get_def hal_simps split: if_splits)

lemma Lampe_Inl_iff:
  "(\<exists>e. Lampe B n h = Inl e) \<longleftrightarrow> length (lampe_port B n) \<le> unat (n div 2)"
  by (auto simp: Lampe_def lampe_port_def Let_def tbl_get_def split: sum.splits)

lemma Lampe_default_effect [simp]:
  "fst (Lampe_default B h) = \<lparr>mLampeNr = 0, mLampePortNrPWM = 0, mHelligkeit = 0\<rparr>"
  "chan_duty (snd (Lampe_default B h)) = chan_duty h"
  "dout (snd (Lampe_default B h)) = (dout h)(PIN_L_INH B := LOW)"
  by (simp_all add: Lampe_default_def Let_def hal_simps)

lemma lampe_reRun_cases:
  "mHelligkeit l = 0 \<Longrightarrow> lampe_reRun B l h = (l, h)"
  "mHelligkeit l \<noteq> 0 \<Longrightarrow> lampe_reRun B l h = lampe_setValues B l (mHelligkeit l) h"
  by (simp_all add: lampe_reRun_def word_neq_0_conv)

subsection \<open>Channels and values\<close>

lemma unat_lampe_chan: "unat (lampe_chan n) = unat n mod 256"
  by (simp add: lampe_chan_def unsigned_ucast_eq take_bit_eq_mod)

lemma lampe_chan_inj:
  assumes "unat n < 256" and "unat k < 256"
  shows "lampe_chan n = lampe_chan k \<longleftrightarrow> n = k"
  using assms by (simp add: word_unat_eq_iff unat_lampe_chan)

lemma unat_lampe_duty: "unat (lampe_duty n x) = duty_cycle (unat x) (odd (unat n))"
  by (simp add: lampe_duty_def Let_def duty_cycle_def u32_mod2_odd lampe_pwm_eq_motor_pwm
      unat_motor_pwm unat_complement_motor_pwm)

lemma lampe_duty_le_255: "lampe_duty n x \<le> 255"
  by (simp add: lampe_duty_def Let_def lampe_pwm_eq_motor_pwm motor_pwm_le_255 u32_complement_le_255)

lemma lampe_reflects_setValues:
  "lampe_reflects (fst (lampe_setValues B l x h)) (snd (lampe_setValues B l x h))"
  by (simp add: lampe_reflects_def)

lemma lampe_reRun_reflecting:
  assumes "lampe_reflects l h" and "0 < mHelligkeit l"
  shows "fst (lampe_reRun B l h) = l" and "chan_duty (snd (lampe_reRun B l h)) = chan_duty h"
    and "dout (snd (lampe_reRun B l h)) = (dout h)(PIN_L_INH B := HIGH)"
proof -
  have run: "lampe_reRun B l h = lampe_setValues B l (mHelligkeit l) h"
    using assms(2) by (simp add: lampe_reRun_def)
  have "(chan_duty h)(lampe_chan (mLampeNr l) := lampe_duty (mLampeNr l) (mHelligkeit l)) = chan_duty h"
    using assms(1) by (simp add: lampe_reflects_def fun_upd_idem)
  then show "fst (lampe_reRun B l h) = l" and "chan_duty (snd (lampe_reRun B l h)) = chan_duty h"
    and "dout (snd (lampe_reRun B l h)) = (dout h)(PIN_L_INH B := HIGH)"
    by (simp_all add: run)
qed

subsection \<open>Properties of the lamp\<close>

text \<open>C2. \<open>Lampe::setValues\<close> implements the duty-cycle contract with the channel-parity
  rule: the lamp's channel receives the contract's value for the brightness, inverted
  for odd lamp numbers, and the lamp driver is enabled.\<close>

theorem lampe_setValues_refines:
  "unat (chan_duty (snd (lampe_setValues B l x h)) (lampe_chan (mLampeNr l)))
     = duty_cycle (unat x) (odd (unat (mLampeNr l)))
   \<and> dout (snd (lampe_setValues B l x h)) (PIN_L_INH B) = HIGH
   \<and> fst (lampe_setValues B l x h) = l\<lparr>mHelligkeit := x\<rparr>"
  by (simp add: unat_lampe_duty)

text \<open>C4. The constructor of an odd lamp writes 0 to its channel, which on an inverted
  channel is the value \<open>setValues\<close> writes for full brightness (level 8), not the value
  for the brightness 0 the object records: the new lamp's hardware does not reflect it,
  and it lights fully as soon as any lamp enables the shared driver.\<close>

theorem Lampe_odd_starts_full_on:
  assumes "Lampe B n h = Inr (l, h')" and "odd (unat n)"
  shows "chan_duty h' (lampe_chan n) = lampe_duty n 8 \<and> mHelligkeit l = 0 \<and> \<not> lampe_reflects l h'"
proof -
  note D = Lampe_InrD [OF assms(1)]
  have odd: "n mod 2 = 1" using assms(2) by (simp add: u32_mod2_odd)
  have "lampe_duty n 8 = 0" and "lampe_duty n 0 = 255"
    using odd by (simp_all add: lampe_duty_def lampe_pwm_def)
  then show ?thesis by (simp add: D(2,3) lampe_reflects_def)
qed

theorem Lampe_odd_starts_full_on_witness:
  "case Lampe demo_board 1 (power_on (\<lambda>_. LOW) (\<lambda>_. 0)) of
     Inl e \<Rightarrow> False
   | Inr (l, h') \<Rightarrow> odd (unat (1::u32)) \<and> \<not> lampe_reflects l h'"
proof -
  obtain l h' where c: "Lampe demo_board 1 (power_on (\<lambda>_. LOW) (\<lambda>_. 0)) = Inr (l, h')"
    by (simp add: Lampe_def demo_board_def tbl_get_def Let_def)
  have "odd (unat (1::u32))" by simp
  from Lampe_odd_starts_full_on [OF c this] c show ?thesis by simp
qed

text \<open>C12. Channel parity: for the same brightness, lamp \<open>2k\<close> receives the contract's
  direct value and lamp \<open>2k+1\<close> its complement, so the two duties add up to 255.\<close>

theorem lampe_parity_complement:
  "lampe_duty (2 * k) x = lampe_pwm x \<and> lampe_duty (2 * k + 1) x = 255 - lampe_pwm x
   \<and> lampe_duty (2 * k) x + lampe_duty (2 * k + 1) x = 255"
  by (simp add: lampe_duty_def u32_double_mod2)

text \<open>C16. The lamp constructor fails exactly when \<open>n/2\<close> is beyond the table it reads
  (the PWM row for even lamps, the direction row for odd ones).\<close>

theorem Lampe_index_error:
  "Lampe B n h = Inl e \<longleftrightarrow> e = IndexOutOfRange \<and> length (lampe_port B n) \<le> unat (n div 2)"
  by (auto simp: Lampe_def lampe_port_def Let_def tbl_get_def split: sum.splits)

text \<open>C23. Refresh: re-running a lamp whose channel holds its nonzero brightness value
  rewrites the same duty, changes no channel, and enables the lamp driver again.\<close>

theorem lampe_reRun_refresh:
  assumes "lampe_reflects l h" and "0 < mHelligkeit l"
  shows "fst (lampe_reRun B l h) = l \<and> chan_duty (snd (lampe_reRun B l h)) = chan_duty h
    \<and> dout (snd (lampe_reRun B l h)) (PIN_L_INH B) = HIGH"
  using lampe_reRun_reflecting [OF assms] by simp

theorem lampe_reRun_refresh_witness:
  "lampe_reflects \<lparr>mLampeNr = 3, mLampePortNrPWM = 15, mHelligkeit = 2\<rparr>
      (snd (lampe_setValues demo_board \<lparr>mLampeNr = 3, mLampePortNrPWM = 15, mHelligkeit = 2\<rparr> 2
              (power_on (\<lambda>_. LOW) (\<lambda>_. 0))))
   \<and> dout (snd (lampe_reRun demo_board \<lparr>mLampeNr = 3, mLampePortNrPWM = 15, mHelligkeit = 2\<rparr>
        (snd (lampe_setValues demo_board \<lparr>mLampeNr = 3, mLampePortNrPWM = 15, mHelligkeit = 2\<rparr> 2
              (power_on (\<lambda>_. LOW) (\<lambda>_. 0)))))) (PIN_L_INH demo_board) = HIGH"
proof -
  let ?l = "\<lparr>mLampeNr = 3, mLampePortNrPWM = 15, mHelligkeit = 2\<rparr>"
  let ?h = "snd (lampe_setValues demo_board ?l 2 (power_on (\<lambda>_. LOW) (\<lambda>_. 0)))"
  have refl: "lampe_reflects ?l ?h"
    using lampe_reflects_setValues [of demo_board ?l 2 "power_on (\<lambda>_. LOW) (\<lambda>_. 0)"] by simp
  have pos: "0 < mHelligkeit ?l" by simp
  have "dout (snd (lampe_reRun demo_board ?l ?h)) (PIN_L_INH demo_board) = HIGH"
    using lampe_reRun_refresh [OF refl pos, of demo_board] by blast
  with refl show ?thesis by blast
qed

text \<open>C24. A constructed lamp has brightness 0, its pin comes from the row its parity
  selects and carries the PWM of its channel, configured for 8 bits at 21.7 kHz and
  written 0; the lamp driver is inhibited.\<close>

theorem Lampe_constructs:
  assumes "Lampe B n h = Inr (l, h')"
  shows "dout h' (PIN_L_INH B) = LOW \<and> mLampeNr l = n \<and> mHelligkeit l = 0
    \<and> mLampePortNrPWM l = lampe_port B n ! unat (n div 2)
    \<and> chan_cfg h' (lampe_chan n) = Some (21700, 8) \<and> pin_pwm h' (mLampePortNrPWM l) = Some 0"
proof -
  note D = Lampe_InrD [OF assms]
  show ?thesis by (simp add: pin_pwm_def D(2-6))
qed

theorem Lampe_constructs_witness:
  "case Lampe demo_board 2 (power_on (\<lambda>_. LOW) (\<lambda>_. 0)) of
     Inl e \<Rightarrow> False
   | Inr (l, h') \<Rightarrow> mLampePortNrPWM l = 17 \<and> pin_pwm h' 17 = Some 0 \<and> dout h' 5 = LOW"
proof -
  obtain l h' where c: "Lampe demo_board 2 (power_on (\<lambda>_. LOW) (\<lambda>_. 0)) = Inr (l, h')"
    by (simp add: Lampe_def demo_board_def tbl_get_def Let_def)
  have p: "mLampePortNrPWM l = lampe_port demo_board 2 ! unat (2 div 2 :: u32)"
    and "pin_pwm h' (mLampePortNrPWM l) = Some 0" and "dout h' (PIN_L_INH demo_board) = LOW"
    using Lampe_constructs [OF c] by blast+
  moreover have "lampe_port demo_board 2 ! unat (2 div 2 :: u32) = 17"
    by (simp add: lampe_port_def demo_board_def)
  ultimately show ?thesis using c by (simp add: demo_board_def)
qed


text \<open>C29. \<open>Lampe::reRun\<close> does nothing for a lamp whose brightness is 0, however
  often it is called. A freshly constructed odd lamp therefore stays as its constructor
  left it: its inverted channel holds the full-brightness duty and the lamp driver is
  inhibited; \<open>reRun\<close> never writes the duty for brightness 0 nor enables the driver.\<close>

theorem lampe_reRun_stopped:
  assumes "Lampe B n h = Inr (l, h')" and "odd (unat n)"
  shows "((\<lambda>(l, h). lampe_reRun B l h) ^^ k) (l, h') = (l, h')
    \<and> chan_duty h' (lampe_chan n) = lampe_duty n 8 \<and> dout h' (PIN_L_INH B) = LOW"
proof -
  note D = Lampe_InrD [OF assms(1)]
  have "lampe_duty n 8 = 0" using assms(2)
    by (simp add: lampe_duty_def lampe_pwm_def u32_mod2_odd [symmetric])
  moreover have "((\<lambda>(l, h). lampe_reRun B l h) ^^ k) (l, h') = (l, h')"
    by (rule funpow_fixpoint) (simp add: lampe_reRun_def D(2))
  ultimately show ?thesis by (simp add: D(3,4))
qed

theorem lampe_reRun_stopped_witness:
  "case Lampe demo_board 1 (power_on (\<lambda>_. LOW) (\<lambda>_. 0)) of
     Inl e \<Rightarrow> False
   | Inr (l, h') \<Rightarrow> odd (unat (1::u32))
       \<and> ((\<lambda>(l, h). lampe_reRun demo_board l h) ^^ 5) (l, h') = (l, h')
       \<and> chan_duty h' (lampe_chan 1) = 0"
proof -
  obtain l h' where c: "Lampe demo_board 1 (power_on (\<lambda>_. LOW) (\<lambda>_. 0)) = Inr (l, h')"
    by (simp add: Lampe_def demo_board_def tbl_get_def Let_def)
  have o: "odd (unat (1::u32))" by simp
  have "lampe_duty 1 8 = 0" by (simp add: lampe_duty_def lampe_pwm_def)
  with lampe_reRun_stopped [OF c o, of 5] c o show ?thesis by simp
qed

text \<open>C30. The serial trace of \<open>Lampe::setValues\<close> ends with exactly the value written to
  the lamp's channel.\<close>

theorem lampe_setValues_logs_duty:
  "\<exists>pre. serial (snd (lampe_setValues B l x h)) =
     serial h @ pre @ [Num (uint (chan_duty (snd (lampe_setValues B l x h)) (lampe_chan (mLampeNr l)))), Eol]"
proof -
  have "sint (lampe_duty (mLampeNr l) x) = uint (lampe_duty (mLampeNr l) x)"
    by (rule u32_sint_small [OF lampe_duty_le_255])
  then show ?thesis by (simp add: lampe_setValues_def Let_def hal_simps)
qed

end
