(* ===== verification/DigitalAnalogIn.thy ===== *)
theory DigitalAnalogIn
  imports Hal
begin

text \<open>
  The class \<open>DigitalAnalogIn\<close> of \<open>src/libs/ft_ESP32_IOobjects.cpp\<close> (lines 220--243).
  An input object holds its number and its pin. The default constructor does not
  initialise the pin member; reading it is reading an indeterminate value, which the
  model records as \<open>None\<close> and the read operations report as \<open>Indeterminate\<close>. The
  digital read configures the pin with pull-up and inverts the level (a pressed switch
  pulls the pin to ground); the analog read configures it without pull-up.
\<close>

record dain =
  mInputNummer :: u32
  mInputPortNr :: "pin option"

definition DigitalAnalogIn_default :: dain where
  "DigitalAnalogIn_default = \<lparr>mInputNummer = 0, mInputPortNr = None\<rparr>"

definition DigitalAnalogIn :: "board \<Rightarrow> u32 \<Rightarrow> error + dain" where
  "DigitalAnalogIn B inputNummer =
     (case tbl_get (PORT_IN B) inputNummer of
        Inl e \<Rightarrow> Inl e
      | Inr p \<Rightarrow> Inr \<lparr>mInputNummer = inputNummer, mInputPortNr = Some p\<rparr>)"

definition getValueDigital :: "dain \<Rightarrow> hal \<Rightarrow> error + u32 \<times> hal" where
  "getValueDigital i h =
     (case mInputPortNr i of
        None \<Rightarrow> Inl Indeterminate
      | Some p \<Rightarrow>
          let h1 = pinMode p INPUT_PULLUP h;
              eingabe = (digitalRead h1 p = LOW)
          in Inr (if eingabe then 1 else 0, h1))"

definition getValueAnalog :: "dain \<Rightarrow> hal \<Rightarrow> error + u32 \<times> hal" where
  "getValueAnalog i h =
     (case mInputPortNr i of
        None \<Rightarrow> Inl Indeterminate
      | Some p \<Rightarrow>
          let h1 = pinMode p INPUT h;
              eingabe = analogRead h1 p
          in Inr (eingabe, h1))"

subsection \<open>Behaviour\<close>

lemma DigitalAnalogIn_Inr_iff:
  "DigitalAnalogIn B n = Inr i \<longleftrightarrow>
     unat n < length (PORT_IN B) \<and> i = \<lparr>mInputNummer = n, mInputPortNr = Some (PORT_IN B ! unat n)\<rparr>"
  by (auto simp: DigitalAnalogIn_def tbl_get_def)

lemma getValueDigital_Some:
  "mInputPortNr i = Some p \<Longrightarrow>
   getValueDigital i h = Inr (if din h p = LOW then 1 else 0, pinMode p INPUT_PULLUP h)"
  by (simp add: getValueDigital_def hal_simps)

lemma getValueAnalog_Some:
  "mInputPortNr i = Some p \<Longrightarrow> getValueAnalog i h = Inr (ain h p, pinMode p INPUT h)"
  by (simp add: getValueAnalog_def hal_simps)

lemma getValue_None:
  "mInputPortNr i = None \<Longrightarrow> getValueDigital i h = Inl Indeterminate"
  "mInputPortNr i = None \<Longrightarrow> getValueAnalog i h = Inl Indeterminate"
  by (simp_all add: getValueDigital_def getValueAnalog_def)

lemma getValue_frame:
  "getValueDigital i h = Inr (v, h') \<Longrightarrow> chan_duty h' = chan_duty h \<and> dout h' = dout h \<and> pin_chan h' = pin_chan h"
  "getValueAnalog i h = Inr (v, h') \<Longrightarrow> chan_duty h' = chan_duty h \<and> dout h' = dout h \<and> pin_chan h' = pin_chan h"
  by (auto simp: getValueDigital_def getValueAnalog_def hal_simps split: option.splits)

subsection \<open>Properties of the input\<close>

text \<open>C17. The digital read of a constructed input configures its table pin with pull-up
  and returns 1 exactly when the pin is low (a pressed switch), 0 otherwise.\<close>

theorem getValueDigital_inverted:
  assumes "DigitalAnalogIn B n = Inr i" and "getValueDigital i h = Inr (v, h')"
  shows "(v = 1 \<longleftrightarrow> din h (PORT_IN B ! unat n) = LOW) \<and> (v = 0 \<or> v = 1)
    \<and> mode h' (PORT_IN B ! unat n) = Some INPUT_PULLUP \<and> chan_duty h' = chan_duty h"
proof -
  from assms(1) have p: "mInputPortNr i = Some (PORT_IN B ! unat n)"
    by (simp add: DigitalAnalogIn_Inr_iff)
  from assms(2) getValueDigital_Some [OF p, of h] show ?thesis
    by (auto simp: hal_simps split: if_splits)
qed

theorem getValueDigital_inverted_witness:
  "case DigitalAnalogIn demo_board 1 of
     Inl e \<Rightarrow> False
   | Inr i \<Rightarrow> (case getValueDigital i (power_on (\<lambda>p. if p = 33 then LOW else HIGH) (\<lambda>_. 0)) of
       Inl e \<Rightarrow> False
     | Inr (v, h') \<Rightarrow> v = 1 \<and> mode h' 33 = Some INPUT_PULLUP)"
proof -
  let ?h = "power_on (\<lambda>p. if p = 33 then LOW else HIGH) (\<lambda>_. 0)"
  obtain i where i: "DigitalAnalogIn demo_board 1 = Inr i"
    by (simp add: DigitalAnalogIn_def demo_board_def tbl_get_def)
  have p: "mInputPortNr i = Some 33" using i by (simp add: DigitalAnalogIn_Inr_iff demo_board_def)
  obtain v h' where r: "getValueDigital i ?h = Inr (v, h')"
    using getValueDigital_Some [OF p] by simp
  have "v = 1 \<longleftrightarrow> din ?h (PORT_IN demo_board ! unat (1::u32)) = LOW"
    and "mode h' (PORT_IN demo_board ! unat (1::u32)) = Some INPUT_PULLUP"
    using getValueDigital_inverted [OF i r] by simp_all
  with i r show ?thesis by (simp add: demo_board_def power_on_def)
qed

text \<open>C18. The analog read of a constructed input configures its table pin without
  pull-up and returns the converter's value for that pin.\<close>

theorem getValueAnalog_reads:
  assumes "DigitalAnalogIn B n = Inr i" and "getValueAnalog i h = Inr (v, h')"
  shows "v = ain h (PORT_IN B ! unat n) \<and> mode h' (PORT_IN B ! unat n) = Some INPUT
    \<and> chan_duty h' = chan_duty h"
proof -
  from assms(1) have p: "mInputPortNr i = Some (PORT_IN B ! unat n)"
    by (simp add: DigitalAnalogIn_Inr_iff)
  from assms(2) getValueAnalog_Some [OF p, of h] show ?thesis
    by (auto simp: hal_simps)
qed

theorem getValueAnalog_reads_witness:
  "case DigitalAnalogIn demo_board 0 of
     Inl e \<Rightarrow> False
   | Inr i \<Rightarrow> (case getValueAnalog i (power_on (\<lambda>_. LOW) (\<lambda>p. if p = 32 then 1234 else 0)) of
       Inl e \<Rightarrow> False
     | Inr (v, h') \<Rightarrow> v = 1234)"
proof -
  let ?h = "power_on (\<lambda>_. LOW) (\<lambda>p. if p = 32 then 1234 else 0)"
  obtain i where i: "DigitalAnalogIn demo_board 0 = Inr i"
    by (simp add: DigitalAnalogIn_def demo_board_def tbl_get_def)
  have p: "mInputPortNr i = Some 32" using i by (simp add: DigitalAnalogIn_Inr_iff demo_board_def)
  obtain v h' where r: "getValueAnalog i ?h = Inr (v, h')"
    using getValueAnalog_Some [OF p] by simp
  have "v = ain ?h (PORT_IN demo_board ! unat (0::u32))"
    using getValueAnalog_reads [OF i r] by simp
  with i r show ?thesis by (simp add: demo_board_def power_on_def)
qed

end
