(* ===== verification/Board.thy ===== *)
theory Board
  imports Motor Lampe DigitalAnalogIn
begin

text \<open>
  A program using the I/O objects: any number of live objects (motors, lamps, inputs),
  each held in a slot of the application, and the one hardware state they all write.
  A step is one call of a constructor or method of \<open>ft_ESP32_IOobjects.cpp\<close> on one
  object, as the application issues it (relation \<open>board_step\<close>). Objects made by
  the default constructors \<open>Motor()\<close>, \<open>Lampe()\<close> and \<open>DigitalAnalogIn()\<close> are
  kept apart (\<open>DMotorDef\<close>, \<open>DLampeDef\<close>, \<open>DInputDef\<close>): they attach no pin, and
  their methods use the channels of motor 0 and lamp 0; a read of a default input reads
  an indeterminate pin and has no successful step. The constructors are taken when the
  new object's LEDC channels are not used by another live object (\<open>chans_free\<close>);
  this is the wiring discipline the source relies on without checking it. The
  invariant \<open>board_inv\<close> says that the live objects use disjoint channels and that
  every channel holds the value its object last computed, with the exceptions of
  objects never set (see \<open>dev_ok\<close>).
\<close>

datatype dev = DMotor motor | DLampe lampe | DInput dain
  | DMotorDef motor | DLampeDef lampe | DInputDef dain

record sys =
  hw :: hal
  objs :: "nat \<Rightarrow> dev option"

fun dev_chans :: "dev \<Rightarrow> u8 set" where
  "dev_chans (DMotor m) = {motor_chan_pwm (mMotorNr m), motor_chan_dir (mMotorNr m)}"
| "dev_chans (DLampe l) = {lampe_chan (mLampeNr l)}"
| "dev_chans (DInput i) = {}"
| "dev_chans (DMotorDef m) = {motor_chan_pwm (mMotorNr m), motor_chan_dir (mMotorNr m)}"
| "dev_chans (DLampeDef l) = {lampe_chan (mLampeNr l)}"
| "dev_chans (DInputDef i) = {}"

text \<open>A motor's channels hold its speed and direction values. A lamp's channel holds
  its brightness value, or, for a lamp never set (brightness 0), the 0 its
  constructor wrote, which for an odd lamp is not the value for brightness 0. A
  default motor or lamp never set has written nothing: its channels hold whatever they
  held before.\<close>

fun dev_ok :: "dev \<Rightarrow> hal \<Rightarrow> bool" where
  "dev_ok (DMotor m) h = motor_reflects m h"
| "dev_ok (DLampe l) h =
     (lampe_reflects l h \<or> (mHelligkeit l = 0 \<and> chan_duty h (lampe_chan (mLampeNr l)) = 0))"
| "dev_ok (DInput i) h = True"
| "dev_ok (DMotorDef m) h = (motor_reflects m h \<or> (mDrehzahl m = 0 \<and> mRechtslauf m))"
| "dev_ok (DLampeDef l) h = (lampe_reflects l h \<or> mHelligkeit l = 0)"
| "dev_ok (DInputDef i) h = True"

definition chans_free :: "sys \<Rightarrow> nat \<Rightarrow> u8 set \<Rightarrow> bool" where
  "chans_free s i cs \<longleftrightarrow> (\<forall>j d. j \<noteq> i \<longrightarrow> objs s j = Some d \<longrightarrow> cs \<inter> dev_chans d = {})"

definition board_inv :: "sys \<Rightarrow> bool" where
  "board_inv s \<longleftrightarrow>
     (\<forall>i d. objs s i = Some d \<longrightarrow> chans_free s i (dev_chans d) \<and> dev_ok d (hw s))"

definition duties_8bit :: "hal \<Rightarrow> bool" where
  "duties_8bit h \<longleftrightarrow> (\<forall>c. chan_duty h c \<le> 255)"

definition board_init :: "(pin \<Rightarrow> level) \<Rightarrow> (pin \<Rightarrow> u32) \<Rightarrow> sys" where
  "board_init env_d env_a = \<lparr>hw = power_on env_d env_a, objs = Map.empty\<rparr>"

inductive board_step :: "board \<Rightarrow> sys \<Rightarrow> sys \<Rightarrow> bool" for B :: board where
  new_motor: "Motor B n (hw s) = Inr (m, h') \<Longrightarrow> chans_free s i (dev_chans (DMotor m)) \<Longrightarrow>
    board_step B s \<lparr>hw = h', objs = (objs s)(i \<mapsto> DMotor m)\<rparr>"
| set_motor: "objs s i = Some (DMotor m) \<Longrightarrow> motor_setValues B m r d (hw s) = (m', h') \<Longrightarrow>
    board_step B s \<lparr>hw = h', objs = (objs s)(i \<mapsto> DMotor m')\<rparr>"
| rerun_motor: "objs s i = Some (DMotor m) \<Longrightarrow> motor_reRun B m (hw s) = (m', h') \<Longrightarrow>
    board_step B s \<lparr>hw = h', objs = (objs s)(i \<mapsto> DMotor m')\<rparr>"
| new_lampe: "Lampe B n (hw s) = Inr (l, h') \<Longrightarrow> chans_free s i (dev_chans (DLampe l)) \<Longrightarrow>
    board_step B s \<lparr>hw = h', objs = (objs s)(i \<mapsto> DLampe l)\<rparr>"
| set_lampe: "objs s i = Some (DLampe l) \<Longrightarrow> lampe_setValues B l x (hw s) = (l', h') \<Longrightarrow>
    board_step B s \<lparr>hw = h', objs = (objs s)(i \<mapsto> DLampe l')\<rparr>"
| rerun_lampe: "objs s i = Some (DLampe l) \<Longrightarrow> lampe_reRun B l (hw s) = (l', h') \<Longrightarrow>
    board_step B s \<lparr>hw = h', objs = (objs s)(i \<mapsto> DLampe l')\<rparr>"
| new_input: "DigitalAnalogIn B n = Inr inp \<Longrightarrow>
    board_step B s \<lparr>hw = hw s, objs = (objs s)(i \<mapsto> DInput inp)\<rparr>"
| read_digital: "objs s i = Some (DInput inp) \<Longrightarrow> getValueDigital inp (hw s) = Inr (v, h') \<Longrightarrow>
    board_step B s \<lparr>hw = h', objs = objs s\<rparr>"
| read_analog: "objs s i = Some (DInput inp) \<Longrightarrow> getValueAnalog inp (hw s) = Inr (v, h') \<Longrightarrow>
    board_step B s \<lparr>hw = h', objs = objs s\<rparr>"
| new_motor_def: "Motor_default B (hw s) = (m, h') \<Longrightarrow> chans_free s i (dev_chans (DMotorDef m)) \<Longrightarrow>
    board_step B s \<lparr>hw = h', objs = (objs s)(i \<mapsto> DMotorDef m)\<rparr>"
| set_motor_def: "objs s i = Some (DMotorDef m) \<Longrightarrow> motor_setValues B m r d (hw s) = (m', h') \<Longrightarrow>
    board_step B s \<lparr>hw = h', objs = (objs s)(i \<mapsto> DMotorDef m')\<rparr>"
| rerun_motor_def: "objs s i = Some (DMotorDef m) \<Longrightarrow> motor_reRun B m (hw s) = (m', h') \<Longrightarrow>
    board_step B s \<lparr>hw = h', objs = (objs s)(i \<mapsto> DMotorDef m')\<rparr>"
| new_lampe_def: "Lampe_default B (hw s) = (l, h') \<Longrightarrow> chans_free s i (dev_chans (DLampeDef l)) \<Longrightarrow>
    board_step B s \<lparr>hw = h', objs = (objs s)(i \<mapsto> DLampeDef l)\<rparr>"
| set_lampe_def: "objs s i = Some (DLampeDef l) \<Longrightarrow> lampe_setValues B l x (hw s) = (l', h') \<Longrightarrow>
    board_step B s \<lparr>hw = h', objs = (objs s)(i \<mapsto> DLampeDef l')\<rparr>"
| rerun_lampe_def: "objs s i = Some (DLampeDef l) \<Longrightarrow> lampe_reRun B l (hw s) = (l', h') \<Longrightarrow>
    board_step B s \<lparr>hw = h', objs = (objs s)(i \<mapsto> DLampeDef l')\<rparr>"
| new_input_def: "board_step B s \<lparr>hw = hw s, objs = (objs s)(i \<mapsto> DInputDef DigitalAnalogIn_default)\<rparr>"
| read_digital_def: "objs s i = Some (DInputDef inp) \<Longrightarrow> getValueDigital inp (hw s) = Inr (v, h') \<Longrightarrow>
    board_step B s \<lparr>hw = h', objs = objs s\<rparr>"
| read_analog_def: "objs s i = Some (DInputDef inp) \<Longrightarrow> getValueAnalog inp (hw s) = Inr (v, h') \<Longrightarrow>
    board_step B s \<lparr>hw = h', objs = objs s\<rparr>"

inductive board_reachable :: "board \<Rightarrow> (pin \<Rightarrow> level) \<Rightarrow> (pin \<Rightarrow> u32) \<Rightarrow> sys \<Rightarrow> bool"
  for B :: board and env_d :: "pin \<Rightarrow> level" and env_a :: "pin \<Rightarrow> u32" where
  start: "board_reachable B env_d env_a (board_init env_d env_a)"
| step: "board_reachable B env_d env_a s \<Longrightarrow> board_step B s t \<Longrightarrow> board_reachable B env_d env_a t"

inductive_cases board_stepE: "board_step B s t"

subsection \<open>A device depends only on its own channels\<close>

lemma dev_ok_cong:
  assumes "\<forall>c \<in> dev_chans d. chan_duty h' c = chan_duty h c"
  shows "dev_ok d h' = dev_ok d h"
  using assms by (cases d) (simp_all add: motor_reflects_def lampe_reflects_def)

lemma chans_free_of_inv:
  "board_inv s \<Longrightarrow> objs s i = Some d \<Longrightarrow> chans_free s i (dev_chans d)"
  by (simp add: board_inv_def)

text \<open>No call destroys an object: a slot once filled stays filled.\<close>

lemma board_step_keeps_objects: "board_step B s t \<Longrightarrow> objs s i \<noteq> None \<Longrightarrow> objs t i \<noteq> None"
  by (erule board_stepE) auto

text \<open>The step lemma every case shares: replacing the object of slot \<open>i\<close> by one
  whose channels are free, whose hardware is right, and whose write touches only its
  own channels keeps the invariant.\<close>

lemma board_inv_replace:
  assumes inv: "board_inv s"
    and free: "chans_free s i (dev_chans d')"
    and ok: "dev_ok d' h'"
    and frame: "\<forall>c. c \<notin> dev_chans d' \<longrightarrow> chan_duty h' c = chan_duty (hw s) c"
  shows "board_inv \<lparr>hw = h', objs = (objs s)(i \<mapsto> d')\<rparr>" (is "board_inv ?t")
  unfolding board_inv_def
proof (intro allI impI)
  fix j d
  assume "objs ?t j = Some d"
  then have j: "((objs s)(i \<mapsto> d')) j = Some d" by simp
  show "chans_free ?t j (dev_chans d) \<and> dev_ok d (hw ?t)"
  proof (cases "j = i")
    case True
    with j have "d = d'" by simp
    with free ok True show ?thesis by (auto simp: chans_free_def Int_commute)
  next
    case False
    with j have sj: "objs s j = Some d" by simp
    with inv have fj: "chans_free s j (dev_chans d)" and okj: "dev_ok d (hw s)"
      by (auto simp: board_inv_def)
    from free False sj have disj: "dev_chans d' \<inter> dev_chans d = {}"
      by (auto simp: chans_free_def)
    then have "\<forall>c \<in> dev_chans d. chan_duty h' c = chan_duty (hw s) c"
      using frame by blast
    with okj have "dev_ok d h'" using dev_ok_cong by blast
    moreover have "chans_free ?t j (dev_chans d)"
      using fj disj False by (auto simp: chans_free_def)
    ultimately show ?thesis by simp
  qed
qed

lemma board_inv_same_duty:
  assumes "board_inv s" and "objs t = objs s" and "chan_duty (hw t) = chan_duty (hw s)"
  shows "board_inv t"
proof -
  have "\<And>d. dev_ok d (hw t) = dev_ok d (hw s)"
    using assms(3) by (simp add: dev_ok_cong)
  with assms show ?thesis by (simp add: board_inv_def chans_free_def)
qed

lemma board_inv_init: "board_inv (board_init env_d env_a)"
  by (simp add: board_inv_def board_init_def)

subsection \<open>Every operation keeps the invariant\<close>

lemma board_inv_new_motor:
  assumes inv: "board_inv s" and c: "Motor B n (hw s) = Inr (m, h')"
    and free: "chans_free s i (dev_chans (DMotor m))"
  shows "board_inv \<lparr>hw = h', objs = (objs s)(i \<mapsto> DMotor m)\<rparr>"
proof (rule board_inv_replace [OF inv free])
  note D = Motor_InrD [OF c]
  show "dev_ok (DMotor m) h'" using motor_reflects_Motor [OF c] by simp
  show "\<forall>c. c \<notin> dev_chans (DMotor m) \<longrightarrow> chan_duty h' c = chan_duty (hw s) c"
    by (simp add: D(3,4))
qed

text \<open>Both kinds of motor object (and of lamp object) share the methods: \<open>K\<close> is the
  constructor of the slot, numbered or default.\<close>

lemma motor_kind:
  assumes "K \<in> {DMotor, DMotorDef}"
  shows "dev_chans (K m) = {motor_chan_pwm (mMotorNr m), motor_chan_dir (mMotorNr m)}"
    and "motor_reflects m h \<Longrightarrow> dev_ok (K m) h"
  using assms by auto

lemma lampe_kind:
  assumes "K \<in> {DLampe, DLampeDef}"
  shows "dev_chans (K l) = {lampe_chan (mLampeNr l)}"
    and "lampe_reflects l h \<Longrightarrow> dev_ok (K l) h"
  using assms by auto

lemma board_inv_set_motor:
  assumes K: "K \<in> {DMotor, DMotorDef}" and inv: "board_inv s" and i: "objs s i = Some (K m)"
    and r: "motor_setValues B m r d (hw s) = (m', h')"
  shows "board_inv \<lparr>hw = h', objs = (objs s)(i \<mapsto> K m')\<rparr>"
proof -
  have m': "m' = fst (motor_setValues B m r d (hw s))" and h': "h' = snd (motor_setValues B m r d (hw s))"
    using r by simp_all
  have "dev_chans (K m') = dev_chans (K m)" by (simp add: motor_kind(1) [OF K] m')
  then have free: "chans_free s i (dev_chans (K m'))"
    using chans_free_of_inv [OF inv i] by simp
  show ?thesis
  proof (rule board_inv_replace [OF inv free])
    show "dev_ok (K m') h'" using motor_kind(2) [OF K motor_reflects_setValues] by (simp add: m' h')
    show "\<forall>c. c \<notin> dev_chans (K m') \<longrightarrow> chan_duty h' c = chan_duty (hw s) c"
      by (simp add: motor_kind(1) [OF K] m' h')
  qed
qed

lemma board_inv_keep:
  assumes inv: "board_inv s" and i: "objs s i = Some d"
  shows "board_inv \<lparr>hw = hw s, objs = (objs s)(i \<mapsto> d)\<rparr>"
proof (rule board_inv_replace [OF inv chans_free_of_inv [OF inv i]])
  show "dev_ok d (hw s)" using inv i by (simp add: board_inv_def)
qed simp

lemma board_inv_rerun_motor:
  assumes K: "K \<in> {DMotor, DMotorDef}" and inv: "board_inv s" and i: "objs s i = Some (K m)"
    and r: "motor_reRun B m (hw s) = (m', h')"
  shows "board_inv \<lparr>hw = h', objs = (objs s)(i \<mapsto> K m')\<rparr>"
proof (cases "mDrehzahl m = 0")
  case True
  with r have "m' = m" and "h' = hw s" by (simp_all add: motor_reRun_cases)
  with board_inv_keep [OF inv i] show ?thesis by simp
next
  case False
  with r have "motor_setValues B m (mRechtslauf m) (mDrehzahl m) (hw s) = (m', h')"
    by (simp add: motor_reRun_cases)
  from board_inv_set_motor [OF K inv i this] show ?thesis .
qed

lemma board_inv_new_lampe:
  assumes inv: "board_inv s" and c: "Lampe B n (hw s) = Inr (l, h')"
    and free: "chans_free s i (dev_chans (DLampe l))"
  shows "board_inv \<lparr>hw = h', objs = (objs s)(i \<mapsto> DLampe l)\<rparr>"
proof (rule board_inv_replace [OF inv free])
  note D = Lampe_InrD [OF c]
  show "dev_ok (DLampe l) h'" by (simp add: D(2,3))
  show "\<forall>c. c \<notin> dev_chans (DLampe l) \<longrightarrow> chan_duty h' c = chan_duty (hw s) c"
    by (simp add: D(2,3))
qed

lemma board_inv_set_lampe:
  assumes K: "K \<in> {DLampe, DLampeDef}" and inv: "board_inv s" and i: "objs s i = Some (K l)"
    and r: "lampe_setValues B l x (hw s) = (l', h')"
  shows "board_inv \<lparr>hw = h', objs = (objs s)(i \<mapsto> K l')\<rparr>"
proof -
  have l': "l' = fst (lampe_setValues B l x (hw s))" and h': "h' = snd (lampe_setValues B l x (hw s))"
    using r by simp_all
  have "dev_chans (K l') = dev_chans (K l)" by (simp add: lampe_kind(1) [OF K] l')
  then have free: "chans_free s i (dev_chans (K l'))"
    using chans_free_of_inv [OF inv i] by simp
  show ?thesis
  proof (rule board_inv_replace [OF inv free])
    show "dev_ok (K l') h'" using lampe_kind(2) [OF K lampe_reflects_setValues] by (simp add: l' h')
    show "\<forall>c. c \<notin> dev_chans (K l') \<longrightarrow> chan_duty h' c = chan_duty (hw s) c"
      by (simp add: lampe_kind(1) [OF K] l' h')
  qed
qed

lemma board_inv_rerun_lampe:
  assumes K: "K \<in> {DLampe, DLampeDef}" and inv: "board_inv s" and i: "objs s i = Some (K l)"
    and r: "lampe_reRun B l (hw s) = (l', h')"
  shows "board_inv \<lparr>hw = h', objs = (objs s)(i \<mapsto> K l')\<rparr>"
proof (cases "mHelligkeit l = 0")
  case True
  with r have "l' = l" and "h' = hw s" by (simp_all add: lampe_reRun_cases)
  with board_inv_keep [OF inv i] show ?thesis by simp
next
  case False
  with r have "lampe_setValues B l (mHelligkeit l) (hw s) = (l', h')"
    by (simp add: lampe_reRun_cases)
  from board_inv_set_lampe [OF K inv i this] show ?thesis .
qed

lemma board_inv_new_input:
  assumes inv: "board_inv s" and d: "d \<in> {DInput inp, DInputDef inp}"
  shows "board_inv \<lparr>hw = hw s, objs = (objs s)(i \<mapsto> d)\<rparr>"
  using d by (intro board_inv_replace [OF inv]) (auto simp: chans_free_def)

lemma board_inv_new_default:
  assumes inv: "board_inv s"
  shows "Motor_default B (hw s) = (m, h') \<Longrightarrow> chans_free s i (dev_chans (DMotorDef m)) \<Longrightarrow>
      board_inv \<lparr>hw = h', objs = (objs s)(i \<mapsto> DMotorDef m)\<rparr>"
    and "Lampe_default B (hw s) = (l, h') \<Longrightarrow> chans_free s i (dev_chans (DLampeDef l)) \<Longrightarrow>
      board_inv \<lparr>hw = h', objs = (objs s)(i \<mapsto> DLampeDef l)\<rparr>"
proof -
  assume c: "Motor_default B (hw s) = (m, h')" and free: "chans_free s i (dev_chans (DMotorDef m))"
  have "m = fst (Motor_default B (hw s))" "h' = snd (Motor_default B (hw s))" using c by simp_all
  then show "board_inv \<lparr>hw = h', objs = (objs s)(i \<mapsto> DMotorDef m)\<rparr>"
    by (intro board_inv_replace [OF inv free]) simp_all
next
  assume c: "Lampe_default B (hw s) = (l, h')" and free: "chans_free s i (dev_chans (DLampeDef l))"
  have "l = fst (Lampe_default B (hw s))" "h' = snd (Lampe_default B (hw s))" using c by simp_all
  then show "board_inv \<lparr>hw = h', objs = (objs s)(i \<mapsto> DLampeDef l)\<rparr>"
    by (intro board_inv_replace [OF inv free]) simp_all
qed

lemma board_step_inv: "board_step B s t \<Longrightarrow> board_inv s \<Longrightarrow> board_inv t"
proof (induction rule: board_step.induct)
  case new_motor
  from new_motor.prems new_motor.hyps show ?case by (rule board_inv_new_motor)
next
  case set_motor
  from set_motor.prems set_motor.hyps show ?case by (intro board_inv_set_motor) simp_all
next
  case rerun_motor
  from rerun_motor.prems rerun_motor.hyps show ?case by (intro board_inv_rerun_motor) simp_all
next
  case new_lampe
  from new_lampe.prems new_lampe.hyps show ?case by (rule board_inv_new_lampe)
next
  case set_lampe
  from set_lampe.prems set_lampe.hyps show ?case by (intro board_inv_set_lampe) simp_all
next
  case rerun_lampe
  from rerun_lampe.prems rerun_lampe.hyps show ?case by (intro board_inv_rerun_lampe) simp_all
next
  case new_input
  from new_input.prems show ?case by (intro board_inv_new_input) simp_all
next
  case (read_digital s i inp v h')
  have "chan_duty h' = chan_duty (hw s)" using getValue_frame(1) [OF read_digital.hyps(2)] by simp
  then show ?case by (intro board_inv_same_duty [OF read_digital.prems]) simp_all
next
  case (read_analog s i inp v h')
  have "chan_duty h' = chan_duty (hw s)" using getValue_frame(2) [OF read_analog.hyps(2)] by simp
  then show ?case by (intro board_inv_same_duty [OF read_analog.prems]) simp_all
next
  case (read_digital_def s i inp v h')
  have "chan_duty h' = chan_duty (hw s)" using getValue_frame(1) [OF read_digital_def.hyps(2)] by simp
  then show ?case by (intro board_inv_same_duty [OF read_digital_def.prems]) simp_all
next
  case (read_analog_def s i inp v h')
  have "chan_duty h' = chan_duty (hw s)" using getValue_frame(2) [OF read_analog_def.hyps(2)] by simp
  then show ?case by (intro board_inv_same_duty [OF read_analog_def.prems]) simp_all
next
  case new_motor_def
  from new_motor_def.prems new_motor_def.hyps show ?case by (rule board_inv_new_default(1))
next
  case set_motor_def
  from set_motor_def.prems set_motor_def.hyps show ?case by (intro board_inv_set_motor) simp_all
next
  case rerun_motor_def
  from rerun_motor_def.prems rerun_motor_def.hyps show ?case by (intro board_inv_rerun_motor) simp_all
next
  case new_lampe_def
  from new_lampe_def.prems new_lampe_def.hyps show ?case by (rule board_inv_new_default(2))
next
  case set_lampe_def
  from set_lampe_def.prems set_lampe_def.hyps show ?case by (intro board_inv_set_lampe) simp_all
next
  case rerun_lampe_def
  from rerun_lampe_def.prems rerun_lampe_def.hyps show ?case by (intro board_inv_rerun_lampe) simp_all
next
  case new_input_def
  from new_input_def.prems show ?case by (intro board_inv_new_input) simp_all
qed

lemma board_reachable_inv: "board_reachable B env_d env_a s \<Longrightarrow> board_inv s"
proof (induction rule: board_reachable.induct)
  case start
  show ?case by (rule board_inv_init)
next
  case (step s t)
  then show ?case by (blast intro: board_step_inv)
qed

subsection \<open>Every duty fits the 8-bit resolution\<close>

lemma duties_8bit_setValues:
  "duties_8bit h \<Longrightarrow> duties_8bit (snd (motor_setValues B m r d h))"
  "duties_8bit h \<Longrightarrow> duties_8bit (snd (lampe_setValues B l x h))"
  by (simp_all add: duties_8bit_def motor_speed_duty_le_255 motor_dir_duty_le_255 lampe_duty_le_255)

lemma duties_8bit_reRun:
  "duties_8bit h \<Longrightarrow> duties_8bit (snd (motor_reRun B m h))"
  "duties_8bit h \<Longrightarrow> duties_8bit (snd (lampe_reRun B l h))"
  by (simp_all add: motor_reRun_def lampe_reRun_def duties_8bit_setValues)

lemma duties_8bit_ctor:
  "duties_8bit h \<Longrightarrow> Motor B n h = Inr (m, h') \<Longrightarrow> duties_8bit h'"
  "duties_8bit h \<Longrightarrow> Lampe B k h = Inr (l, h') \<Longrightarrow> duties_8bit h'"
  by (simp_all add: duties_8bit_def Motor_InrD(4) Lampe_InrD(3))

lemma board_step_8bit: "board_step B s t \<Longrightarrow> duties_8bit (hw s) \<Longrightarrow> duties_8bit (hw t)"
proof (induction rule: board_step.induct)
  case (new_motor n s m h' i)
  from duties_8bit_ctor(1) [OF new_motor.prems new_motor.hyps(1)] show ?case by simp
next
  case (set_motor s i m r d m' h')
  then show ?case using duties_8bit_setValues(1) [of "hw s" B m r d] by simp
next
  case (rerun_motor s i m m' h')
  then show ?case using duties_8bit_reRun(1) [of "hw s" B m] by simp
next
  case (new_lampe n s l h' i)
  from duties_8bit_ctor(2) [OF new_lampe.prems new_lampe.hyps(1)] show ?case by simp
next
  case (set_lampe s i l x l' h')
  then show ?case using duties_8bit_setValues(2) [of "hw s" B l x] by simp
next
  case (rerun_lampe s i l l' h')
  then show ?case using duties_8bit_reRun(2) [of "hw s" B l] by simp
next
  case (new_input n inp s i)
  then show ?case by simp
next
  case (read_digital s i inp v h')
  have "chan_duty h' = chan_duty (hw s)" using getValue_frame(1) [OF read_digital.hyps(2)] by simp
  with read_digital.prems show ?case by (simp add: duties_8bit_def)
next
  case (read_analog s i inp v h')
  have "chan_duty h' = chan_duty (hw s)" using getValue_frame(2) [OF read_analog.hyps(2)] by simp
  with read_analog.prems show ?case by (simp add: duties_8bit_def)
next
  case (read_digital_def s i inp v h')
  have "chan_duty h' = chan_duty (hw s)" using getValue_frame(1) [OF read_digital_def.hyps(2)] by simp
  with read_digital_def.prems show ?case by (simp add: duties_8bit_def)
next
  case (read_analog_def s i inp v h')
  have "chan_duty h' = chan_duty (hw s)" using getValue_frame(2) [OF read_analog_def.hyps(2)] by simp
  with read_analog_def.prems show ?case by (simp add: duties_8bit_def)
next
  case (new_motor_def s m h' i)
  then have "h' = snd (Motor_default B (hw s))" by simp
  with new_motor_def.prems show ?case by (simp add: duties_8bit_def)
next
  case (set_motor_def s i m r d m' h')
  then show ?case using duties_8bit_setValues(1) [of "hw s" B m r d] by simp
next
  case (rerun_motor_def s i m m' h')
  then show ?case using duties_8bit_reRun(1) [of "hw s" B m] by simp
next
  case (new_lampe_def s l h' i)
  then have "h' = snd (Lampe_default B (hw s))" by simp
  with new_lampe_def.prems show ?case by (simp add: duties_8bit_def)
next
  case (set_lampe_def s i l x l' h')
  then show ?case using duties_8bit_setValues(2) [of "hw s" B l x] by simp
next
  case (rerun_lampe_def s i l l' h')
  then show ?case using duties_8bit_reRun(2) [of "hw s" B l] by simp
next
  case new_input_def
  then show ?case by simp
qed

lemma board_reachable_8bit: "board_reachable B env_d env_a s \<Longrightarrow> duties_8bit (hw s)"
proof (induction rule: board_reachable.induct)
  case start
  show ?case by (simp add: duties_8bit_def board_init_def power_on_def)
next
  case (step s t)
  then show ?case by (blast intro: board_step_8bit)
qed

subsection \<open>A run of the example board\<close>

text \<open>Two motors constructed on the example tables, then motor 1 commanded backward at
  speed 5: a reachable state that the witnesses below use.\<close>

lemma demo_two_motors_reachable:
  "\<exists>s m0 m1. board_reachable demo_board (\<lambda>_. LOW) (\<lambda>_. 0) s
     \<and> objs s 0 = Some (DMotor m0) \<and> objs s 1 = Some (DMotor m1)
     \<and> mMotorNr m0 = 0 \<and> mMotorNr m1 = 1 \<and> mDrehzahl m1 = 5"
proof -
  let ?s0 = "board_init (\<lambda>_. LOW) (\<lambda>_. 0)"
  have r0: "board_reachable demo_board (\<lambda>_. LOW) (\<lambda>_. 0) ?s0" by (rule board_reachable.start)
  have "\<not> (\<exists>e. Motor demo_board 0 (hw ?s0) = Inl e)"
    by (simp add: Motor_Inl_iff demo_board_def)
  then obtain m0 h1 where c0: "Motor demo_board 0 (hw ?s0) = Inr (m0, h1)"
    by (metis sumE surj_pair)
  have n0: "mMotorNr m0 = 0" using Motor_InrD(3) [OF c0] by simp
  let ?s1 = "\<lparr>hw = h1, objs = (objs ?s0)(0 \<mapsto> DMotor m0)\<rparr>"
  have "chans_free ?s0 0 (dev_chans (DMotor m0))" by (simp add: chans_free_def board_init_def)
  with r0 c0 have r1: "board_reachable demo_board (\<lambda>_. LOW) (\<lambda>_. 0) ?s1"
    by (blast intro: board_reachable.step board_step.new_motor)
  have "\<not> (\<exists>e. Motor demo_board 1 h1 = Inl e)"
    by (simp add: Motor_Inl_iff demo_board_def)
  then obtain m1 h2 where c1: "Motor demo_board 1 h1 = Inr (m1, h2)"
    by (metis sumE surj_pair)
  have n1: "mMotorNr m1 = 1" using Motor_InrD(3) [OF c1] by simp
  let ?s2 = "\<lparr>hw = h2, objs = (objs ?s1)(1 \<mapsto> DMotor m1)\<rparr>"
  have "{motor_chan_pwm 1, motor_chan_dir 1} \<inter> {motor_chan_pwm 0, motor_chan_dir (0::u32)} = {}"
    by (simp add: motor_chan_inj)
  then have free1: "chans_free ?s1 1 (dev_chans (DMotor m1))"
    by (auto simp: chans_free_def board_init_def n0 n1)
  have c1': "Motor demo_board 1 (hw ?s1) = Inr (m1, h2)" using c1 by simp
  have r2: "board_reachable demo_board (\<lambda>_. LOW) (\<lambda>_. 0) ?s2"
    using board_reachable.step [OF r1 board_step.new_motor [OF c1' free1]] by simp
  let ?r = "motor_setValues demo_board m1 False 5 h2"
  let ?s3 = "\<lparr>hw = snd ?r, objs = (objs ?s2)(1 \<mapsto> DMotor (fst ?r))\<rparr>"
  have "objs ?s2 1 = Some (DMotor m1)" by simp
  moreover have "motor_setValues demo_board m1 False 5 (hw ?s2) = (fst ?r, snd ?r)"
    by (simp del: motor_setValues_obj)
  ultimately have "board_step demo_board ?s2 ?s3" by (rule board_step.set_motor)
  with r2 have r3: "board_reachable demo_board (\<lambda>_. LOW) (\<lambda>_. 0) ?s3"
    by (rule board_reachable.step)
  have "objs ?s3 0 = Some (DMotor m0)" and "objs ?s3 1 = Some (DMotor (fst ?r))"
    and "mMotorNr (fst ?r) = 1" and "mDrehzahl (fst ?r) = 5"
    by (simp_all add: n1)
  with r3 n0 show ?thesis by blast
qed

subsection \<open>Properties of the board\<close>

text \<open>C3. In every reachable state of a program that gives its objects disjoint
  channels, every live object's channels hold what it last computed: a motor's speed
  and direction values, a lamp's brightness value, or, for a lamp never set, the 0 of
  its constructor.\<close>

theorem board_objects_reflect:
  "board_reachable B env_d env_a s \<Longrightarrow> objs s i = Some d \<Longrightarrow> dev_ok d (hw s)"
  using board_reachable_inv by (simp add: board_inv_def)

theorem board_objects_reflect_witness:
  "\<exists>s m. board_reachable demo_board (\<lambda>_. LOW) (\<lambda>_. 0) s \<and> objs s 1 = Some (DMotor m)
     \<and> mDrehzahl m = 5 \<and> motor_reflects m (hw s)"
proof -
  obtain s m0 m1 where r: "board_reachable demo_board (\<lambda>_. LOW) (\<lambda>_. 0) s"
    and o: "objs s 1 = Some (DMotor m1)" and d: "mDrehzahl m1 = 5"
    using demo_two_motors_reachable by blast
  have "dev_ok (DMotor m1) (hw s)" by (rule board_objects_reflect [OF r o])
  with r o d show ?thesis by auto
qed

text \<open>C10. In every reachable state every LEDC channel holds a duty below 256, the range
  of the 8-bit resolution every channel is configured with.\<close>

theorem board_duties_8bit:
  "board_reachable B env_d env_a s \<Longrightarrow> unat (chan_duty (hw s) c) < 2 ^ 8"
proof -
  assume "board_reachable B env_d env_a s"
  then have "chan_duty (hw s) c \<le> 255" using board_reachable_8bit by (simp add: duties_8bit_def)
  then show ?thesis by (simp add: word_le_nat_alt)
qed

theorem board_duties_8bit_witness:
  "\<exists>s. board_reachable demo_board (\<lambda>_. LOW) (\<lambda>_. 0) s \<and> unat (chan_duty (hw s) 3) < 2 ^ 8"
proof -
  obtain s where r: "board_reachable demo_board (\<lambda>_. LOW) (\<lambda>_. 0) s"
    using demo_two_motors_reachable by blast
  from r board_duties_8bit [OF r, of 3] show ?thesis by blast
qed

end
