(* ===== verification/Wiring.thy ===== *)
theory Wiring
  imports Board
begin

text \<open>
  The pin level of the board model. The constructors copy the pin numbers of an object
  from the tables of the header (\<open>PORT_M_PWM[n]\<close>, \<open>PORT_M_DIR[n]\<close>, \<open>PORT_L_PWM[n/2]\<close>
  or \<open>PORT_M_DIR[n/2]\<close>, \<open>PORT_IN[n]\<close>) and attach each output pin to the object's
  LEDC channel; no method changes a pin member or an attachment. \<open>dev_wf\<close> says
  that a live object is well formed, its members are the table entries for its
  number (for a default-constructed object, the members its constructor sets), and \<open>dev_wired\<close> that its pins are attached to its channels. The first holds
  in every reachable state; the second holds when the three output tables hold
  distinct pins (\<open>tables_ok\<close>), since then objects on disjoint channels have
  disjoint pins.
\<close>

definition tables_ok :: "board \<Rightarrow> bool" where
  "tables_ok B \<longleftrightarrow> distinct (PORT_M_PWM B @ PORT_M_DIR B @ PORT_L_PWM B)"

fun dev_wf :: "board \<Rightarrow> dev \<Rightarrow> bool" where
  "dev_wf B (DMotor m) =
     (unat (mMotorNr m) < length (PORT_M_PWM B) \<and> unat (mMotorNr m) < length (PORT_M_DIR B)
      \<and> mPortNrPWM m = PORT_M_PWM B ! unat (mMotorNr m)
      \<and> mPortNrDir m = PORT_M_DIR B ! unat (mMotorNr m))"
| "dev_wf B (DLampe l) =
     (unat (mLampeNr l div 2) < length (lampe_port B (mLampeNr l))
      \<and> mLampePortNrPWM l = lampe_port B (mLampeNr l) ! unat (mLampeNr l div 2))"
| "dev_wf B (DInput i) =
     (unat (mInputNummer i) < length (PORT_IN B)
      \<and> mInputPortNr i = Some (PORT_IN B ! unat (mInputNummer i)))"
| "dev_wf B (DMotorDef m) = (mMotorNr m = 0 \<and> mPortNrPWM m = 0 \<and> mPortNrDir m = 0)"
| "dev_wf B (DLampeDef l) = (mLampeNr l = 0 \<and> mLampePortNrPWM l = 0)"
| "dev_wf B (DInputDef i) = (i = DigitalAnalogIn_default)"

text \<open>The attachments \<open>ledcAttachPin(pin, channel)\<close> an object's constructor made.\<close>

fun dev_wires :: "dev \<Rightarrow> (pin \<times> u8) list" where
  "dev_wires (DMotor m) =
     [(mPortNrPWM m, motor_chan_pwm (mMotorNr m)), (mPortNrDir m, motor_chan_dir (mMotorNr m))]"
| "dev_wires (DLampe l) = [(mLampePortNrPWM l, lampe_chan (mLampeNr l))]"
| "dev_wires (DInput i) = []"
| "dev_wires (DMotorDef m) = []"
| "dev_wires (DLampeDef l) = []"
| "dev_wires (DInputDef i) = []"

definition dev_pins :: "dev \<Rightarrow> pin set" where
  "dev_pins d = set (map fst (dev_wires d))"

definition dev_wired :: "dev \<Rightarrow> hal \<Rightarrow> bool" where
  "dev_wired d h \<longleftrightarrow> list_all (\<lambda>w. pin_chan h (fst w) = Some (snd w)) (dev_wires d)"

definition objs_wf :: "board \<Rightarrow> sys \<Rightarrow> bool" where
  "objs_wf B s \<longleftrightarrow> (\<forall>i d. objs s i = Some d \<longrightarrow> dev_wf B d)"

definition wiring_inv :: "sys \<Rightarrow> bool" where
  "wiring_inv s \<longleftrightarrow> (\<forall>i d. objs s i = Some d \<longrightarrow> dev_wired d (hw s))"

subsection \<open>Word facts on lamp numbers\<close>

lemma u32_mod2_even: "(n :: u32) mod 2 = 0 \<longleftrightarrow> even (unat n)"
proof -
  have "unat (n mod 2) = unat n mod 2" by (simp add: unat_mod)
  then show ?thesis by (auto simp: word_unat_eq_iff even_iff_mod_2_eq_zero)
qed

lemma u32_half_parity_inj:
  fixes n k :: u32
  assumes "even (unat n) = even (unat k)" and "unat (n div 2) = unat (k div 2)"
  shows "n = k"
proof -
  have "unat n div 2 = unat k div 2" using assms(2) by (simp add: unat_div)
  moreover have "unat n mod 2 = unat k mod 2" using assms(1)
    by (simp add: even_iff_mod_2_eq_zero odd_iff_mod_2_eq_one) (metis even_iff_mod_2_eq_zero odd_iff_mod_2_eq_one)
  ultimately have "unat n = unat k" by (metis div_mult_mod_eq)
  then show ?thesis by (simp add: word_unat_eq_iff)
qed

text \<open>Lamp \<open>2k+1\<close> uses the channel of motor \<open>k\<close>'s direction signal.\<close>

lemma lampe_chan_odd_eq_motor_dir:
  assumes "odd (unat n)" and "unat (n div 2) = unat k"
  shows "lampe_chan n = motor_chan_dir k"
proof -
  have "unat n = 2 * unat k + 1" using assms by (simp add: unat_div) presburger
  then show ?thesis by (simp add: word_unat_eq_iff unat_lampe_chan unat_motor_chan_dir)
qed

subsection \<open>Objects on disjoint channels have disjoint pins\<close>

lemma tables_okD:
  assumes "tables_ok B"
  shows "distinct (PORT_M_PWM B)" "distinct (PORT_M_DIR B)" "distinct (PORT_L_PWM B)"
    "set (PORT_M_PWM B) \<inter> set (PORT_M_DIR B) = {}" "set (PORT_M_PWM B) \<inter> set (PORT_L_PWM B) = {}"
    "set (PORT_M_DIR B) \<inter> set (PORT_L_PWM B) = {}"
  using assms unfolding tables_ok_def distinct_append set_append by blast+

lemma distinct_nth_neq:
  "distinct xs \<Longrightarrow> i < length xs \<Longrightarrow> j < length xs \<Longrightarrow> i \<noteq> j \<Longrightarrow> xs ! i \<noteq> xs ! j"
  by (simp add: nth_eq_iff_index_eq)

lemma disjoint_nth_neq:
  assumes "set xs \<inter> set ys = {}" and "i < length xs" and "j < length ys"
  shows "xs ! i \<noteq> ys ! j"
proof
  assume "xs ! i = ys ! j"
  then have "xs ! i \<in> set xs \<inter> set ys" using nth_mem [OF assms(2)] nth_mem [OF assms(3)] by simp
  with assms(1) show False by simp
qed

lemma motor_pins_distinct:
  assumes "tables_ok B" and "dev_wf B (DMotor m)"
  shows "mPortNrPWM m \<noteq> mPortNrDir m"
  using assms(2) disjoint_nth_neq [OF tables_okD(4) [OF assms(1)]] by simp

lemma motor_motor_pins:
  assumes t: "tables_ok B" and a: "dev_wf B (DMotor m)" and b: "dev_wf B (DMotor m')"
    and ne: "mMotorNr m \<noteq> mMotorNr m'"
  shows "dev_pins (DMotor m) \<inter> dev_pins (DMotor m') = {}"
proof -
  have "unat (mMotorNr m) \<noteq> unat (mMotorNr m')" using ne by (simp add: word_unat_eq_iff)
  then show ?thesis using a b distinct_nth_neq [OF tables_okD(1) [OF t]]
      distinct_nth_neq [OF tables_okD(2) [OF t]] disjoint_nth_neq [OF tables_okD(4) [OF t]]
    by (auto simp: dev_pins_def)
qed

lemma motor_lampe_pins:
  assumes t: "tables_ok B" and a: "dev_wf B (DMotor m)" and b: "dev_wf B (DLampe l)"
    and ne: "lampe_chan (mLampeNr l) \<noteq> motor_chan_dir (mMotorNr m)"
  shows "dev_pins (DMotor m) \<inter> dev_pins (DLampe l) = {}"
proof (cases "mLampeNr l mod 2 = 0")
  case True
  then show ?thesis using a b disjoint_nth_neq [OF tables_okD(5) [OF t]]
      disjoint_nth_neq [OF tables_okD(6) [OF t]]
    by (auto simp: dev_pins_def lampe_port_def)
next
  case False
  then have odd: "odd (unat (mLampeNr l))" using u32_mod2_even by blast
  have "unat (mLampeNr l div 2) \<noteq> unat (mMotorNr m)"
    using lampe_chan_odd_eq_motor_dir [OF odd] ne by blast
  then show ?thesis using False a b disjoint_nth_neq [OF tables_okD(4) [OF t]]
      distinct_nth_neq [OF tables_okD(2) [OF t]]
    by (auto simp: dev_pins_def lampe_port_def)
qed

lemma lampe_lampe_pins:
  assumes t: "tables_ok B" and a: "dev_wf B (DLampe l)" and b: "dev_wf B (DLampe l')"
    and ne: "mLampeNr l \<noteq> mLampeNr l'"
  shows "dev_pins (DLampe l) \<inter> dev_pins (DLampe l') = {}"
proof (cases "even (unat (mLampeNr l)) = even (unat (mLampeNr l'))")
  case True
  then have "unat (mLampeNr l div 2) \<noteq> unat (mLampeNr l' div 2)"
    using u32_half_parity_inj ne by blast
  then show ?thesis using True a b distinct_nth_neq [OF tables_okD(3) [OF t]]
      distinct_nth_neq [OF tables_okD(2) [OF t]]
    by (auto simp: dev_pins_def lampe_port_def u32_mod2_even split: if_splits)
next
  case False
  then show ?thesis using a b disjoint_nth_neq [OF tables_okD(6) [OF t]]
      disjoint_nth_neq [OF tables_okD(6) [OF t], THEN not_sym]
    by (auto simp: dev_pins_def lampe_port_def u32_mod2_even split: if_splits)
qed

lemma dev_pins_disjoint:
  assumes t: "tables_ok B" and a: "dev_wf B d" and b: "dev_wf B d'"
    and disj: "dev_chans d \<inter> dev_chans d' = {}"
  shows "dev_pins d \<inter> dev_pins d' = {}"
proof (cases d)
  case (DMotor m)
  show ?thesis
  proof (cases d')
    case (DMotor m')
    with \<open>d = DMotor m\<close> disj have "mMotorNr m \<noteq> mMotorNr m'" by auto
    with DMotor \<open>d = DMotor m\<close> show ?thesis using motor_motor_pins [OF t] a b by simp
  next
    case (DLampe l)
    with \<open>d = DMotor m\<close> disj have "lampe_chan (mLampeNr l) \<noteq> motor_chan_dir (mMotorNr m)" by auto
    with DLampe \<open>d = DMotor m\<close> show ?thesis using motor_lampe_pins [OF t] a b by simp
  qed (simp_all add: dev_pins_def)
next
  case (DLampe l)
  show ?thesis
  proof (cases d')
    case (DMotor m)
    with \<open>d = DLampe l\<close> disj have "lampe_chan (mLampeNr l) \<noteq> motor_chan_dir (mMotorNr m)" by auto
    with DMotor \<open>d = DLampe l\<close> show ?thesis using motor_lampe_pins [OF t] a b by blast
  next
    case (DLampe l')
    with \<open>d = DLampe l\<close> disj have "mLampeNr l \<noteq> mLampeNr l'" by auto
    with DLampe \<open>d = DLampe l\<close> show ?thesis using lampe_lampe_pins [OF t] a b by simp
  qed (simp_all add: dev_pins_def)
qed (simp_all add: dev_pins_def)

subsection \<open>Every live object is well formed\<close>

lemma dev_wf_Motor: "Motor B n h = Inr (m, h') \<Longrightarrow> dev_wf B (DMotor m)"
proof -
  assume c: "Motor B n h = Inr (m, h')"
  show ?thesis using Motor_InrD(1,2) [OF c] by (simp add: Motor_InrD(3) [OF c])
qed

lemma dev_wf_Lampe: "Lampe B k h = Inr (l, h') \<Longrightarrow> dev_wf B (DLampe l)"
proof -
  assume c: "Lampe B k h = Inr (l, h')"
  show ?thesis using Lampe_InrD(1) [OF c] by (simp add: Lampe_InrD(2) [OF c])
qed

lemma dev_wf_DigitalAnalogIn: "DigitalAnalogIn B j = Inr i \<Longrightarrow> dev_wf B (DInput i)"
  by (simp add: DigitalAnalogIn_Inr_iff)

text \<open>\<open>setValues\<close> and \<open>reRun\<close> change only the commanded values of an object, never its
  number or pins.\<close>

lemma reRun_obj [simp]: "fst (motor_reRun B m h) = m" "fst (lampe_reRun B l h) = l"
  by (simp_all add: motor_reRun_def lampe_reRun_def)

lemma objs_wf_upd:
  "objs_wf B s \<Longrightarrow> dev_wf B d \<Longrightarrow> objs_wf B \<lparr>hw = h', objs = (objs s)(i \<mapsto> d)\<rparr>"
  by (simp add: objs_wf_def)

lemma objs_wfD: "objs_wf B s \<Longrightarrow> objs s i = Some d \<Longrightarrow> dev_wf B d"
  by (simp add: objs_wf_def)

text \<open>The object a method returns: \<open>setValues\<close> stores its arguments, \<open>reRun\<close>
  returns the object unchanged.\<close>

lemma method_obj:
  "motor_setValues B m r d h = (m', h') \<Longrightarrow> m' = m\<lparr>mRechtslauf := r, mDrehzahl := d\<rparr>"
  "motor_reRun B m h = (m', h') \<Longrightarrow> m' = m"
  "lampe_setValues B l x h = (l', h') \<Longrightarrow> l' = l\<lparr>mHelligkeit := x\<rparr>"
  "lampe_reRun B l h = (l', h') \<Longrightarrow> l' = l"
  by (metis fst_conv motor_setValues_obj, metis fst_conv reRun_obj(1),
      metis fst_conv lampe_setValues_obj, metis fst_conv reRun_obj(2))

lemma objs_wf_method:
  assumes "objs_wf B s" and "objs s i = Some d" and "dev_wf B d' = dev_wf B d"
  shows "objs_wf B \<lparr>hw = h', objs = (objs s)(i \<mapsto> d')\<rparr>"
  using assms by (intro objs_wf_upd) (simp_all add: objs_wfD)

lemma board_step_wf: "board_step B s t \<Longrightarrow> objs_wf B s \<Longrightarrow> objs_wf B t"
proof (induction rule: board_step.induct)
  case (new_motor n s m h' i)
  from objs_wf_upd [OF new_motor.prems dev_wf_Motor [OF new_motor.hyps(1)]] show ?case .
next
  case (new_lampe n s l h' i)
  from objs_wf_upd [OF new_lampe.prems dev_wf_Lampe [OF new_lampe.hyps(1)]] show ?case .
next
  case (new_input n inp s i)
  from objs_wf_upd [OF new_input.prems dev_wf_DigitalAnalogIn [OF new_input.hyps]] show ?case .
next
  case (new_motor_def s m h' i)
  then have "m = fst (Motor_default B (hw s))" by simp
  then have "dev_wf B (DMotorDef m)" by simp
  from objs_wf_upd [OF new_motor_def.prems this] show ?case .
next
  case (new_lampe_def s l h' i)
  then have "l = fst (Lampe_default B (hw s))" by simp
  then have "dev_wf B (DLampeDef l)" by simp
  from objs_wf_upd [OF new_lampe_def.prems this] show ?case .
next
  case (new_input_def s i)
  from objs_wf_upd [OF new_input_def.prems, of "DInputDef DigitalAnalogIn_default"] show ?case by simp
next
  case (set_motor s i m r d m' h')
  show ?case by (rule objs_wf_method [OF set_motor.prems set_motor.hyps(1)])
    (simp add: method_obj(1) [OF set_motor.hyps(2)])
next
  case (rerun_motor s i m m' h')
  show ?case by (rule objs_wf_method [OF rerun_motor.prems rerun_motor.hyps(1)])
    (simp add: method_obj(2) [OF rerun_motor.hyps(2)])
next
  case (set_lampe s i l x l' h')
  show ?case by (rule objs_wf_method [OF set_lampe.prems set_lampe.hyps(1)])
    (simp add: method_obj(3) [OF set_lampe.hyps(2)])
next
  case (rerun_lampe s i l l' h')
  show ?case by (rule objs_wf_method [OF rerun_lampe.prems rerun_lampe.hyps(1)])
    (simp add: method_obj(4) [OF rerun_lampe.hyps(2)])
next
  case (set_motor_def s i m r d m' h')
  show ?case by (rule objs_wf_method [OF set_motor_def.prems set_motor_def.hyps(1)])
    (simp add: method_obj(1) [OF set_motor_def.hyps(2)])
next
  case (rerun_motor_def s i m m' h')
  show ?case by (rule objs_wf_method [OF rerun_motor_def.prems rerun_motor_def.hyps(1)])
    (simp add: method_obj(2) [OF rerun_motor_def.hyps(2)])
next
  case (set_lampe_def s i l x l' h')
  show ?case by (rule objs_wf_method [OF set_lampe_def.prems set_lampe_def.hyps(1)])
    (simp add: method_obj(3) [OF set_lampe_def.hyps(2)])
next
  case (rerun_lampe_def s i l l' h')
  show ?case by (rule objs_wf_method [OF rerun_lampe_def.prems rerun_lampe_def.hyps(1)])
    (simp add: method_obj(4) [OF rerun_lampe_def.hyps(2)])
qed (simp_all add: objs_wf_def)

lemma board_reachable_wf: "board_reachable B env_d env_a s \<Longrightarrow> objs_wf B s"
proof (induction rule: board_reachable.induct)
  case start
  show ?case by (simp add: objs_wf_def board_init_def)
next
  case (step s t)
  then show ?case by (blast intro: board_step_wf)
qed

subsection \<open>Every live object's pins stay attached to its channels\<close>

lemma dev_wired_cong:
  assumes "\<forall>p \<in> dev_pins d. pin_chan h' p = pin_chan h p"
  shows "dev_wired d h' = dev_wired d h"
proof -
  have "\<forall>w \<in> set (dev_wires d). pin_chan h' (fst w) = pin_chan h (fst w)"
    using assms by (simp add: dev_pins_def)
  then show ?thesis unfolding dev_wired_def list_all_iff by simp
qed

lemma wiring_invD: "wiring_inv s \<Longrightarrow> objs s i = Some d \<Longrightarrow> dev_wired d (hw s)"
  by (simp add: wiring_inv_def)

text \<open>A new object whose pins are attached to its channels, whose channels are free and
  whose construction re-attached only its own pins keeps every other object wired.\<close>

lemma wiring_inv_new:
  assumes w: "wiring_inv s" and wf: "objs_wf B s" and t: "tables_ok B"
    and free: "chans_free s i (dev_chans d')" and wfd: "dev_wf B d'" and wd: "dev_wired d' h'"
    and frame: "\<forall>p. p \<notin> dev_pins d' \<longrightarrow> pin_chan h' p = pin_chan (hw s) p"
  shows "wiring_inv \<lparr>hw = h', objs = (objs s)(i \<mapsto> d')\<rparr>"
  unfolding wiring_inv_def
proof (intro allI impI)
  fix j d
  assume j: "objs \<lparr>hw = h', objs = (objs s)(i \<mapsto> d')\<rparr> j = Some d"
  show "dev_wired d (hw \<lparr>hw = h', objs = (objs s)(i \<mapsto> d')\<rparr>)"
  proof (cases "j = i")
    case True
    with j wd show ?thesis by simp
  next
    case False
    with j have sj: "objs s j = Some d" by simp
    from free False sj have "dev_chans d' \<inter> dev_chans d = {}" by (auto simp: chans_free_def)
    from dev_pins_disjoint [OF t wfd objs_wfD [OF wf sj] this]
    have "\<forall>p \<in> dev_pins d. pin_chan h' p = pin_chan (hw s) p" using frame by blast
    with wiring_invD [OF w sj] show ?thesis using dev_wired_cong [of d h' "hw s"] by simp
  qed
qed

text \<open>A call that keeps the attachments and replaces an object by one with the same
  wires keeps every object wired.\<close>

lemma wiring_inv_same:
  assumes w: "wiring_inv s" and i: "objs s i = Some d" and dw: "dev_wires d' = dev_wires d"
    and pc: "pin_chan h' = pin_chan (hw s)"
  shows "wiring_inv \<lparr>hw = h', objs = (objs s)(i \<mapsto> d')\<rparr>"
  using w i dw pc by (auto simp: wiring_inv_def dev_wired_def)

lemma wiring_inv_reads:
  "wiring_inv s \<Longrightarrow> pin_chan h' = pin_chan (hw s) \<Longrightarrow> wiring_inv \<lparr>hw = h', objs = objs s\<rparr>"
  by (simp add: wiring_inv_def dev_wired_def)

text \<open>Default-constructed objects attach nothing.\<close>

lemma Lampe_default_pin_chan [simp]: "pin_chan (snd (Lampe_default B h)) = pin_chan h"
  by (simp add: Lampe_default_def Let_def hal_simps)

lemma wiring_inv_nowires:
  assumes w: "wiring_inv s" and d: "dev_wires d' = []" and pc: "pin_chan h' = pin_chan (hw s)"
  shows "wiring_inv \<lparr>hw = h', objs = (objs s)(i \<mapsto> d')\<rparr>"
  using w d pc by (auto simp: wiring_inv_def dev_wired_def)

lemma Motor_wired:
  assumes t: "tables_ok B" and c: "Motor B n h = Inr (m, h')"
  shows "dev_wired (DMotor m) h'" and "\<forall>p. p \<notin> dev_pins (DMotor m) \<longrightarrow> pin_chan h' p = pin_chan h p"
proof -
  note D = Motor_InrD [OF c]
  have "mPortNrPWM m \<noteq> mPortNrDir m" by (rule motor_pins_distinct [OF t dev_wf_Motor [OF c]])
  then show "dev_wired (DMotor m) h'" by (simp add: dev_wired_def D(3,6))
  show "\<forall>p. p \<notin> dev_pins (DMotor m) \<longrightarrow> pin_chan h' p = pin_chan h p"
    by (simp add: dev_pins_def D(3,6))
qed

lemma Lampe_wired:
  assumes c: "Lampe B k h = Inr (l, h')"
  shows "dev_wired (DLampe l) h'" and "\<forall>p. p \<notin> dev_pins (DLampe l) \<longrightarrow> pin_chan h' p = pin_chan h p"
  by (simp_all add: dev_wired_def dev_pins_def Lampe_InrD(2,5) [OF c])

lemma board_step_wiring:
  assumes "board_step B s t" and t: "tables_ok B" and inv: "board_inv s" and wf: "objs_wf B s"
    and w: "wiring_inv s"
  shows "wiring_inv t"
  using assms(1)
proof cases
  case (new_motor n m h' i)
  show ?thesis unfolding new_motor(1)
    by (rule wiring_inv_new [OF w wf t new_motor(3) dev_wf_Motor [OF new_motor(2)]
          Motor_wired [OF t new_motor(2)]])
next
  case (set_motor i m r d m' h')
  have "m' = fst (motor_setValues B m r d (hw s))" "h' = snd (motor_setValues B m r d (hw s))"
    using set_motor(3) by simp_all
  then show ?thesis unfolding set_motor(1) by (intro wiring_inv_same [OF w set_motor(2)]) simp_all
next
  case (rerun_motor i m m' h')
  have "m' = fst (motor_reRun B m (hw s))" "h' = snd (motor_reRun B m (hw s))"
    using rerun_motor(3) by simp_all
  then show ?thesis unfolding rerun_motor(1)
    by (intro wiring_inv_same [OF w rerun_motor(2)]) (simp_all add: motor_reRun_def)
next
  case (new_lampe n l h' i)
  show ?thesis unfolding new_lampe(1)
    by (rule wiring_inv_new [OF w wf t new_lampe(3) dev_wf_Lampe [OF new_lampe(2)]
          Lampe_wired [OF new_lampe(2)]])
next
  case (set_lampe i l x l' h')
  have "l' = fst (lampe_setValues B l x (hw s))" "h' = snd (lampe_setValues B l x (hw s))"
    using set_lampe(3) by simp_all
  then show ?thesis unfolding set_lampe(1) by (intro wiring_inv_same [OF w set_lampe(2)]) simp_all
next
  case (rerun_lampe i l l' h')
  have "l' = fst (lampe_reRun B l (hw s))" "h' = snd (lampe_reRun B l (hw s))"
    using rerun_lampe(3) by simp_all
  then show ?thesis unfolding rerun_lampe(1)
    by (intro wiring_inv_same [OF w rerun_lampe(2)]) (simp_all add: lampe_reRun_def)
next
  case (new_input n inp i)
  show ?thesis unfolding new_input(1)
    by (rule wiring_inv_new [OF w wf t _ dev_wf_DigitalAnalogIn [OF new_input(2)]])
      (simp_all add: chans_free_def dev_wired_def dev_pins_def)
next
  case (read_digital i inp v h')
  show ?thesis unfolding read_digital(1)
    by (rule wiring_inv_reads [OF w]) (simp add: getValue_frame(1) [OF read_digital(3)])
next
  case (read_analog i inp v h')
  show ?thesis unfolding read_analog(1)
    by (rule wiring_inv_reads [OF w]) (simp add: getValue_frame(2) [OF read_analog(3)])
next
  case (read_digital_def i inp v h')
  show ?thesis unfolding read_digital_def(1)
    by (rule wiring_inv_reads [OF w]) (simp add: getValue_frame(1) [OF read_digital_def(3)])
next
  case (read_analog_def i inp v h')
  show ?thesis unfolding read_analog_def(1)
    by (rule wiring_inv_reads [OF w]) (simp add: getValue_frame(2) [OF read_analog_def(3)])
next
  case (new_motor_def m h' i)
  then have "h' = snd (Motor_default B (hw s))" by simp
  then show ?thesis unfolding new_motor_def(1) by (intro wiring_inv_nowires [OF w]) simp_all
next
  case (set_motor_def i m r d m' h')
  then have "h' = snd (motor_setValues B m r d (hw s))" by simp
  then show ?thesis unfolding set_motor_def(1) by (intro wiring_inv_nowires [OF w]) simp_all
next
  case (rerun_motor_def i m m' h')
  then have "h' = snd (motor_reRun B m (hw s))" by simp
  then show ?thesis unfolding rerun_motor_def(1)
    by (intro wiring_inv_nowires [OF w]) (simp_all add: motor_reRun_def)
next
  case (new_lampe_def l h' i)
  then have "h' = snd (Lampe_default B (hw s))" by simp
  then show ?thesis unfolding new_lampe_def(1) by (intro wiring_inv_nowires [OF w]) simp_all
next
  case (set_lampe_def i l x l' h')
  then have "h' = snd (lampe_setValues B l x (hw s))" by simp
  then show ?thesis unfolding set_lampe_def(1) by (intro wiring_inv_nowires [OF w]) simp_all
next
  case (rerun_lampe_def i l l' h')
  then have "h' = snd (lampe_reRun B l (hw s))" by simp
  then show ?thesis unfolding rerun_lampe_def(1)
    by (intro wiring_inv_nowires [OF w]) (simp_all add: lampe_reRun_def)
next
  case (new_input_def i)
  show ?thesis unfolding new_input_def by (intro wiring_inv_nowires [OF w]) simp_all
qed

lemma board_reachable_wiring:
  "board_reachable B env_d env_a s \<Longrightarrow> tables_ok B \<Longrightarrow> wiring_inv s"
proof (induction rule: board_reachable.induct)
  case start
  show ?case by (simp add: wiring_inv_def board_init_def)
next
  case (step s t)
  from board_step_wiring [OF step.hyps(2) step.prems board_reachable_inv [OF step.hyps(1)]
      board_reachable_wf [OF step.hyps(1)] step.IH [OF step.prems]]
  show ?case .
qed

subsection \<open>A run of the example board with a lamp\<close>

text \<open>Lamp 1 constructed on the example tables and set to brightness 3.\<close>

lemma demo_lampe_reachable:
  "\<exists>s l. board_reachable demo_board (\<lambda>_. LOW) (\<lambda>_. 0) s \<and> objs s 0 = Some (DLampe l)
     \<and> mLampeNr l = 1 \<and> mHelligkeit l = 3"
proof -
  let ?s0 = "board_init (\<lambda>_. LOW) (\<lambda>_. 0)"
  have r0: "board_reachable demo_board (\<lambda>_. LOW) (\<lambda>_. 0) ?s0" by (rule board_reachable.start)
  have "\<not> (\<exists>e. Lampe demo_board 1 (hw ?s0) = Inl e)"
    by (simp add: Lampe_Inl_iff demo_board_def lampe_port_def)
  then obtain l h1 where c: "Lampe demo_board 1 (hw ?s0) = Inr (l, h1)"
    by (metis sumE surj_pair)
  have n: "mLampeNr l = 1" using Lampe_InrD(2) [OF c] by simp
  let ?s1 = "\<lparr>hw = h1, objs = (objs ?s0)(0 \<mapsto> DLampe l)\<rparr>"
  have "chans_free ?s0 0 (dev_chans (DLampe l))" by (simp add: chans_free_def board_init_def)
  with r0 c have r1: "board_reachable demo_board (\<lambda>_. LOW) (\<lambda>_. 0) ?s1"
    by (blast intro: board_reachable.step board_step.new_lampe)
  let ?r = "lampe_setValues demo_board l 3 h1"
  let ?s2 = "\<lparr>hw = snd ?r, objs = (objs ?s1)(0 \<mapsto> DLampe (fst ?r))\<rparr>"
  have "objs ?s1 0 = Some (DLampe l)" by simp
  moreover have "lampe_setValues demo_board l 3 (hw ?s1) = (fst ?r, snd ?r)"
    by (simp del: lampe_setValues_obj)
  ultimately have "board_step demo_board ?s1 ?s2" by (rule board_step.set_lampe)
  with r1 have r2: "board_reachable demo_board (\<lambda>_. LOW) (\<lambda>_. 0) ?s2"
    by (rule board_reachable.step)
  have "objs ?s2 0 = Some (DLampe (fst ?r))" and "mLampeNr (fst ?r) = 1" and "mHelligkeit (fst ?r) = 3"
    by (simp_all add: n)
  with r2 show ?thesis by blast
qed

lemma board_inv_dev_ok: "board_inv s \<Longrightarrow> objs s i = Some d \<Longrightarrow> dev_ok d (hw s)"
  by (simp add: board_inv_def)

lemma tables_ok_demo: "tables_ok demo_board"
  by (simp add: tables_ok_def demo_board_def)

subsection \<open>Properties of the wiring\<close>

text \<open>C25. Every live object of a reachable state is well formed: its number indexes
  the pin tables and its pin members are the table entries for that number (for a lamp,
  in the row its parity selects; for an input, the pin is defined).\<close>

theorem board_objects_wf:
  "board_reachable B env_d env_a s \<Longrightarrow> objs s i = Some d \<Longrightarrow> dev_wf B d"
  using board_reachable_wf objs_wfD by blast

theorem board_objects_wf_witness:
  "\<exists>s l. board_reachable demo_board (\<lambda>_. LOW) (\<lambda>_. 0) s \<and> objs s 0 = Some (DLampe l)
     \<and> mLampeNr l = 1 \<and> mLampePortNrPWM l = 14"
proof -
  obtain s l where r: "board_reachable demo_board (\<lambda>_. LOW) (\<lambda>_. 0) s"
    and o: "objs s 0 = Some (DLampe l)" and n: "mLampeNr l = 1"
    using demo_lampe_reachable by blast
  have "dev_wf demo_board (DLampe l)" by (rule board_objects_wf [OF r o])
  then have "mLampePortNrPWM l = 14" by (simp add: n lampe_port_def demo_board_def)
  with r o n show ?thesis by blast
qed

text \<open>C26. When the three output tables hold distinct pins, in every reachable state the
  speed pin of every live motor carries the PWM value of its speed and direction and
  its direction pin the value of its direction.\<close>

theorem board_motor_pins:
  "tables_ok B \<Longrightarrow> board_reachable B env_d env_a s \<Longrightarrow> objs s i = Some (DMotor m) \<Longrightarrow>
   pin_pwm (hw s) (mPortNrPWM m) = Some (motor_speed_duty (mRechtslauf m) (mDrehzahl m))
   \<and> pin_pwm (hw s) (mPortNrDir m) = Some (motor_dir_duty (mRechtslauf m))"
proof -
  assume t: "tables_ok B" and r: "board_reachable B env_d env_a s" and o: "objs s i = Some (DMotor m)"
  have "dev_wired (DMotor m) (hw s)" by (rule wiring_invD [OF board_reachable_wiring [OF r t] o])
  moreover have "motor_reflects m (hw s)"
    using board_inv_dev_ok [OF board_reachable_inv [OF r] o] by simp
  ultimately show ?thesis by (simp add: dev_wired_def motor_reflects_def pin_pwm_def)
qed

theorem board_motor_pins_witness:
  "\<exists>s m. board_reachable demo_board (\<lambda>_. LOW) (\<lambda>_. 0) s \<and> objs s 1 = Some (DMotor m)
     \<and> pin_pwm (hw s) (mPortNrPWM m) = Some (motor_speed_duty (mRechtslauf m) 5)"
proof -
  obtain s m0 m where r: "board_reachable demo_board (\<lambda>_. LOW) (\<lambda>_. 0) s"
    and o: "objs s 1 = Some (DMotor m)" and d: "mDrehzahl m = 5"
    using demo_two_motors_reachable by blast
  from board_motor_pins [OF tables_ok_demo r o] d r o show ?thesis by auto
qed

text \<open>C27. When the output tables hold distinct pins, in every reachable state the pin of
  every live lamp that has been given a brightness carries the lamp's PWM value for it
  (inverted on odd lamps).\<close>

theorem board_lampe_pin:
  "tables_ok B \<Longrightarrow> board_reachable B env_d env_a s \<Longrightarrow> objs s i = Some (DLampe l) \<Longrightarrow>
   mHelligkeit l \<noteq> 0 \<Longrightarrow>
   pin_pwm (hw s) (mLampePortNrPWM l) = Some (lampe_duty (mLampeNr l) (mHelligkeit l))"
proof -
  assume t: "tables_ok B" and r: "board_reachable B env_d env_a s"
    and o: "objs s i = Some (DLampe l)" and x: "mHelligkeit l \<noteq> 0"
  have "dev_wired (DLampe l) (hw s)" by (rule wiring_invD [OF board_reachable_wiring [OF r t] o])
  moreover have "lampe_reflects l (hw s)"
    using board_inv_dev_ok [OF board_reachable_inv [OF r] o] x by simp
  ultimately show ?thesis by (simp add: dev_wired_def lampe_reflects_def pin_pwm_def)
qed

theorem board_lampe_pin_witness:
  "\<exists>s l. board_reachable demo_board (\<lambda>_. LOW) (\<lambda>_. 0) s \<and> objs s 0 = Some (DLampe l)
     \<and> pin_pwm (hw s) (mLampePortNrPWM l) = Some 159"
proof -
  obtain s l where r: "board_reachable demo_board (\<lambda>_. LOW) (\<lambda>_. 0) s"
    and o: "objs s 0 = Some (DLampe l)" and n: "mLampeNr l = 1" and x: "mHelligkeit l = 3"
    using demo_lampe_reachable by blast
  have "pin_pwm (hw s) (mLampePortNrPWM l) = Some (lampe_duty 1 3)"
    using board_lampe_pin [OF tables_ok_demo r o] n x by simp
  moreover have "lampe_duty 1 3 = 159" by (simp add: lampe_duty_def lampe_pwm_def)
  ultimately show ?thesis using r o by auto
qed

end
