(* ===== verification/Exec.thy ===== *)
theory Exec
  imports Wiring
begin

text \<open>
  An executable interpreter of programs using the I/O objects. A command is one call of
  a constructor or method of \<open>ft_ESP32_IOobjects.cpp\<close> on the object held in a slot of
  the application (datatype \<open>cmd\<close>); \<open>board_exec\<close> runs it on the state and
  \<open>board_run\<close> runs a list of them, stopping at the first error. The errors are the
  calls' own (\<open>CallError\<close>) and a call on a slot that holds no object of the class
  (\<open>NoObject\<close>, which the C++ type system rules out). Every constructor of the
  source, the default ones included, is a command, and a method call on a slot
  dispatches on the class of its object. Like the source, the
  interpreter does not check that a new object's channels are free; that is the
  application's discipline \<open>cmd_guard\<close>. The lemmas show that the guarded
  interpreter and the relation \<open>board_step\<close> have the same transitions, so the
  reachable states are exactly the results of guarded runs from power-on, and that
  such runs are computed by the simplifier on concrete programs.
\<close>

datatype cmd =
    NewMotor nat u32 | NewMotorDefault nat | SetMotor nat bool u32 | ReRunMotor nat
  | NewLampe nat u32 | NewLampeDefault nat | SetLampe nat u32 | ReRunLampe nat
  | NewInput nat u32 | NewInputDefault nat | ReadDigital nat | ReadAnalog nat

datatype exec_error = CallError error | NoObject nat

text \<open>The object of a slot as the receiver of a method of its class, with the
  constructor (numbered or default) that puts the updated object back.\<close>

fun motor_slot :: "dev \<Rightarrow> (motor \<times> (motor \<Rightarrow> dev)) option" where
  "motor_slot (DMotor m) = Some (m, DMotor)"
| "motor_slot (DMotorDef m) = Some (m, DMotorDef)"
| "motor_slot d = None"

fun lampe_slot :: "dev \<Rightarrow> (lampe \<times> (lampe \<Rightarrow> dev)) option" where
  "lampe_slot (DLampe l) = Some (l, DLampe)"
| "lampe_slot (DLampeDef l) = Some (l, DLampeDef)"
| "lampe_slot d = None"

fun input_slot :: "dev \<Rightarrow> dain option" where
  "input_slot (DInput i) = Some i"
| "input_slot (DInputDef i) = Some i"
| "input_slot d = None"

definition slot :: "(dev \<Rightarrow> 'a option) \<Rightarrow> sys \<Rightarrow> nat \<Rightarrow> exec_error + 'a" where
  "slot f s i = (case objs s i of None \<Rightarrow> Inl (NoObject i)
                 | Some d \<Rightarrow> (case f d of None \<Rightarrow> Inl (NoObject i) | Some x \<Rightarrow> Inr x))"

fun board_exec :: "board \<Rightarrow> cmd \<Rightarrow> sys \<Rightarrow> exec_error + sys" where
  "board_exec B (NewMotor i n) s =
     (case Motor B n (hw s) of
        Inl e \<Rightarrow> Inl (CallError e)
      | Inr (m, h') \<Rightarrow> Inr \<lparr>hw = h', objs = (objs s)(i \<mapsto> DMotor m)\<rparr>)"
| "board_exec B (NewMotorDefault i) s =
     (case Motor_default B (hw s) of (m, h') \<Rightarrow> Inr \<lparr>hw = h', objs = (objs s)(i \<mapsto> DMotorDef m)\<rparr>)"
| "board_exec B (SetMotor i r d) s =
     (case slot motor_slot s i of
        Inl e \<Rightarrow> Inl e
      | Inr (m, K) \<Rightarrow>
          (case motor_setValues B m r d (hw s) of (m', h') \<Rightarrow> Inr \<lparr>hw = h', objs = (objs s)(i \<mapsto> K m')\<rparr>))"
| "board_exec B (ReRunMotor i) s =
     (case slot motor_slot s i of
        Inl e \<Rightarrow> Inl e
      | Inr (m, K) \<Rightarrow>
          (case motor_reRun B m (hw s) of (m', h') \<Rightarrow> Inr \<lparr>hw = h', objs = (objs s)(i \<mapsto> K m')\<rparr>))"
| "board_exec B (NewLampe i n) s =
     (case Lampe B n (hw s) of
        Inl e \<Rightarrow> Inl (CallError e)
      | Inr (l, h') \<Rightarrow> Inr \<lparr>hw = h', objs = (objs s)(i \<mapsto> DLampe l)\<rparr>)"
| "board_exec B (NewLampeDefault i) s =
     (case Lampe_default B (hw s) of (l, h') \<Rightarrow> Inr \<lparr>hw = h', objs = (objs s)(i \<mapsto> DLampeDef l)\<rparr>)"
| "board_exec B (SetLampe i x) s =
     (case slot lampe_slot s i of
        Inl e \<Rightarrow> Inl e
      | Inr (l, K) \<Rightarrow>
          (case lampe_setValues B l x (hw s) of (l', h') \<Rightarrow> Inr \<lparr>hw = h', objs = (objs s)(i \<mapsto> K l')\<rparr>))"
| "board_exec B (ReRunLampe i) s =
     (case slot lampe_slot s i of
        Inl e \<Rightarrow> Inl e
      | Inr (l, K) \<Rightarrow>
          (case lampe_reRun B l (hw s) of (l', h') \<Rightarrow> Inr \<lparr>hw = h', objs = (objs s)(i \<mapsto> K l')\<rparr>))"
| "board_exec B (NewInput i n) s =
     (case DigitalAnalogIn B n of
        Inl e \<Rightarrow> Inl (CallError e)
      | Inr inp \<Rightarrow> Inr \<lparr>hw = hw s, objs = (objs s)(i \<mapsto> DInput inp)\<rparr>)"
| "board_exec B (NewInputDefault i) s =
     Inr \<lparr>hw = hw s, objs = (objs s)(i \<mapsto> DInputDef DigitalAnalogIn_default)\<rparr>"
| "board_exec B (ReadDigital i) s =
     (case slot input_slot s i of
        Inl e \<Rightarrow> Inl e
      | Inr inp \<Rightarrow>
          (case getValueDigital inp (hw s) of
             Inl e \<Rightarrow> Inl (CallError e)
           | Inr (v, h') \<Rightarrow> Inr \<lparr>hw = h', objs = objs s\<rparr>))"
| "board_exec B (ReadAnalog i) s =
     (case slot input_slot s i of
        Inl e \<Rightarrow> Inl e
      | Inr inp \<Rightarrow>
          (case getValueAnalog inp (hw s) of
             Inl e \<Rightarrow> Inl (CallError e)
           | Inr (v, h') \<Rightarrow> Inr \<lparr>hw = h', objs = objs s\<rparr>))"

text \<open>The application's discipline: a new motor or lamp goes to channels no other live
  object uses; a default motor or lamp uses the channels of motor 0 or lamp 0.\<close>

fun cmd_guard :: "sys \<Rightarrow> cmd \<Rightarrow> bool" where
  "cmd_guard s (NewMotor i n) = chans_free s i {motor_chan_pwm n, motor_chan_dir n}"
| "cmd_guard s (NewMotorDefault i) = chans_free s i {motor_chan_pwm 0, motor_chan_dir 0}"
| "cmd_guard s (NewLampe i n) = chans_free s i {lampe_chan n}"
| "cmd_guard s (NewLampeDefault i) = chans_free s i {lampe_chan 0}"
| "cmd_guard s c = True"

fun board_run :: "board \<Rightarrow> cmd list \<Rightarrow> sys \<Rightarrow> exec_error + sys" where
  "board_run B [] s = Inr s"
| "board_run B (c # cs) s = (case board_exec B c s of Inl e \<Rightarrow> Inl e | Inr t \<Rightarrow> board_run B cs t)"

fun run_guarded :: "board \<Rightarrow> cmd list \<Rightarrow> sys \<Rightarrow> bool" where
  "run_guarded B [] s = True"
| "run_guarded B (c # cs) s =
     (cmd_guard s c \<and> (case board_exec B c s of Inl e \<Rightarrow> True | Inr t \<Rightarrow> run_guarded B cs t))"

subsection \<open>The interpreter and the relation agree\<close>

lemma slot_fun_Some:
  "motor_slot d = Some (m, K) \<longleftrightarrow> (d = DMotor m \<and> K = DMotor) \<or> (d = DMotorDef m \<and> K = DMotorDef)"
  "lampe_slot d = Some (l, L) \<longleftrightarrow> (d = DLampe l \<and> L = DLampe) \<or> (d = DLampeDef l \<and> L = DLampeDef)"
  "input_slot d = Some inp \<longleftrightarrow> d = DInput inp \<or> d = DInputDef inp"
  by (cases d; auto)+

lemma slot_Inr:
  "slot motor_slot s i = Inr (m, K) \<longleftrightarrow>
     (objs s i = Some (DMotor m) \<and> K = DMotor) \<or> (objs s i = Some (DMotorDef m) \<and> K = DMotorDef)"
  "slot lampe_slot s i = Inr (l, L) \<longleftrightarrow>
     (objs s i = Some (DLampe l) \<and> L = DLampe) \<or> (objs s i = Some (DLampeDef l) \<and> L = DLampeDef)"
  "slot input_slot s i = Inr inp \<longleftrightarrow> objs s i = Some (DInput inp) \<or> objs s i = Some (DInputDef inp)"
  by (auto simp: slot_def slot_fun_Some split: option.splits)

lemma slot_Inl: "slot f s i = Inl e \<Longrightarrow> e = NoObject i"
  by (auto simp: slot_def split: option.splits)

lemma board_exec_step:
  assumes e: "board_exec B c s = Inr t" and g: "cmd_guard s c"
  shows "board_step B s t"
proof (cases c)
  case (NewMotor i n)
  then obtain m h' where c: "Motor B n (hw s) = Inr (m, h')"
    and t: "t = \<lparr>hw = h', objs = (objs s)(i \<mapsto> DMotor m)\<rparr>"
    using e by (auto split: sum.splits)
  have "dev_chans (DMotor m) = {motor_chan_pwm n, motor_chan_dir n}" by (simp add: Motor_InrD(3) [OF c])
  with g NewMotor have "chans_free s i (dev_chans (DMotor m))" by simp
  from board_step.new_motor [OF c this] show ?thesis by (simp add: t)
next
  case (NewMotorDefault i)
  obtain m h' where c: "Motor_default B (hw s) = (m, h')" by (cases "Motor_default B (hw s)")
  then have m: "m = fst (Motor_default B (hw s))" by simp
  have t: "t = \<lparr>hw = h', objs = (objs s)(i \<mapsto> DMotorDef m)\<rparr>" using e c NewMotorDefault by simp
  have "chans_free s i (dev_chans (DMotorDef m))" using g NewMotorDefault by (simp add: m)
  from board_step.new_motor_def [OF c this] show ?thesis by (simp add: t)
next
  case (NewLampe i n)
  then obtain l h' where c: "Lampe B n (hw s) = Inr (l, h')"
    and t: "t = \<lparr>hw = h', objs = (objs s)(i \<mapsto> DLampe l)\<rparr>"
    using e by (auto split: sum.splits)
  have "dev_chans (DLampe l) = {lampe_chan n}" by (simp add: Lampe_InrD(2) [OF c])
  with g NewLampe have "chans_free s i (dev_chans (DLampe l))" by simp
  from board_step.new_lampe [OF c this] show ?thesis by (simp add: t)
next
  case (NewLampeDefault i)
  obtain l h' where c: "Lampe_default B (hw s) = (l, h')" by (cases "Lampe_default B (hw s)")
  then have l: "l = fst (Lampe_default B (hw s))" by simp
  have t: "t = \<lparr>hw = h', objs = (objs s)(i \<mapsto> DLampeDef l)\<rparr>" using e c NewLampeDefault by simp
  have "chans_free s i (dev_chans (DLampeDef l))" using g NewLampeDefault by (simp add: l)
  from board_step.new_lampe_def [OF c this] show ?thesis by (simp add: t)
qed (use e in \<open>auto simp: slot_Inr split: sum.splits prod.splits
       intro: board_step.intros\<close>)

lemma board_step_exec:
  assumes "board_step B s t"
  shows "\<exists>c. cmd_guard s c \<and> board_exec B c s = Inr t"
  using assms
proof cases
  case (new_motor n m h' i)
  have "cmd_guard s (NewMotor i n)" using new_motor(3) by (simp add: Motor_InrD(3) [OF new_motor(2)])
  moreover have "board_exec B (NewMotor i n) s = Inr t" by (simp add: new_motor(1,2))
  ultimately show ?thesis by blast
next
  case (new_lampe n l h' i)
  have "cmd_guard s (NewLampe i n)" using new_lampe(3) by (simp add: Lampe_InrD(2) [OF new_lampe(2)])
  moreover have "board_exec B (NewLampe i n) s = Inr t" by (simp add: new_lampe(1,2))
  ultimately show ?thesis by blast
next
  case (new_motor_def m h' i)
  have "m = fst (Motor_default B (hw s))" using new_motor_def(2) by simp
  then have "cmd_guard s (NewMotorDefault i)" using new_motor_def(3) by simp
  moreover have "board_exec B (NewMotorDefault i) s = Inr t" by (simp add: new_motor_def(1,2))
  ultimately show ?thesis by blast
next
  case (new_lampe_def l h' i)
  have "l = fst (Lampe_default B (hw s))" using new_lampe_def(2) by simp
  then have "cmd_guard s (NewLampeDefault i)" using new_lampe_def(3) by simp
  moreover have "board_exec B (NewLampeDefault i) s = Inr t" by (simp add: new_lampe_def(1,2))
  ultimately show ?thesis by blast
next
  case (set_motor i m r d m' h')
  then show ?thesis by (intro exI [of _ "SetMotor i r d"]) (simp add: slot_def)
next
  case (set_motor_def i m r d m' h')
  then show ?thesis by (intro exI [of _ "SetMotor i r d"]) (simp add: slot_def)
next
  case (rerun_motor i m m' h')
  then show ?thesis by (intro exI [of _ "ReRunMotor i"]) (simp add: slot_def)
next
  case (rerun_motor_def i m m' h')
  then show ?thesis by (intro exI [of _ "ReRunMotor i"]) (simp add: slot_def)
next
  case (set_lampe i l x l' h')
  then show ?thesis by (intro exI [of _ "SetLampe i x"]) (simp add: slot_def)
next
  case (set_lampe_def i l x l' h')
  then show ?thesis by (intro exI [of _ "SetLampe i x"]) (simp add: slot_def)
next
  case (rerun_lampe i l l' h')
  then show ?thesis by (intro exI [of _ "ReRunLampe i"]) (simp add: slot_def)
next
  case (rerun_lampe_def i l l' h')
  then show ?thesis by (intro exI [of _ "ReRunLampe i"]) (simp add: slot_def)
next
  case (new_input n inp i)
  then have "board_exec B (NewInput i n) s = Inr t" by simp
  then show ?thesis by (intro exI [of _ "NewInput i n"]) simp
next
  case (new_input_def i)
  then have "board_exec B (NewInputDefault i) s = Inr t" by simp
  then show ?thesis by (intro exI [of _ "NewInputDefault i"]) simp
next
  case (read_digital i inp v h')
  then show ?thesis by (intro exI [of _ "ReadDigital i"]) (simp add: slot_def)
next
  case (read_analog i inp v h')
  then show ?thesis by (intro exI [of _ "ReadAnalog i"]) (simp add: slot_def)
next
  case (read_digital_def i inp v h')
  then show ?thesis by (intro exI [of _ "ReadDigital i"]) (simp add: slot_def)
next
  case (read_analog_def i inp v h')
  then show ?thesis by (intro exI [of _ "ReadAnalog i"]) (simp add: slot_def)
qed

subsection \<open>Runs\<close>

lemma board_run_reachable:
  "board_reachable B env_d env_a s \<Longrightarrow> run_guarded B cs s \<Longrightarrow> board_run B cs s = Inr t \<Longrightarrow>
   board_reachable B env_d env_a t"
proof (induction cs arbitrary: s)
  case Nil
  then show ?case by simp
next
  case (Cons c cs)
  then obtain u where u: "board_exec B c s = Inr u" and r: "board_run B cs u = Inr t"
    by (auto split: sum.splits)
  have "board_step B s u" using board_exec_step [OF u] Cons.prems(2) by simp
  with Cons.prems(1) have "board_reachable B env_d env_a u" by (rule board_reachable.step)
  moreover have "run_guarded B cs u" using Cons.prems(2) u by simp
  ultimately show ?case using Cons.IH r by blast
qed

lemma board_run_append:
  "board_run B cs s = Inr u \<Longrightarrow> board_run B (cs @ ds) s = board_run B ds u"
  by (induction cs arbitrary: s) (auto split: sum.splits)

lemma run_guarded_append:
  "board_run B cs s = Inr u \<Longrightarrow> run_guarded B (cs @ ds) s = (run_guarded B cs s \<and> run_guarded B ds u)"
  by (induction cs arbitrary: s) (auto split: sum.splits)

lemma reachable_board_run:
  "board_reachable B env_d env_a s \<Longrightarrow>
   \<exists>cs. run_guarded B cs (board_init env_d env_a) \<and> board_run B cs (board_init env_d env_a) = Inr s"
proof (induction rule: board_reachable.induct)
  case start
  show ?case by (rule exI [of _ "[]"]) simp
next
  case (step s t)
  from step.IH obtain cs where g: "run_guarded B cs (board_init env_d env_a)"
    and r: "board_run B cs (board_init env_d env_a) = Inr s" by blast
  from board_step_exec [OF step.hyps(2)] obtain c where gc: "cmd_guard s c"
    and e: "board_exec B c s = Inr t" by blast
  have "run_guarded B (cs @ [c]) (board_init env_d env_a)"
    using run_guarded_append [OF r] g gc e by simp
  moreover have "board_run B (cs @ [c]) (board_init env_d env_a) = Inr t"
    using board_run_append [OF r] e by simp
  ultimately show ?case by blast
qed

subsection \<open>Properties of the interpreter\<close>

text \<open>A concrete program, computed by the simplifier: motors 0 and 1 on the example
  tables, motor 1 reversed at speed 5; motor 1's speed pin 13 carries 255 - 160.\<close>

lemma demo_run:
  "\<exists>s. board_run demo_board [NewMotor 0 0, NewMotor 1 1, SetMotor 1 False 5]
         (board_init (\<lambda>_. LOW) (\<lambda>_. 0)) = Inr s
     \<and> run_guarded demo_board [NewMotor 0 0, NewMotor 1 1, SetMotor 1 False 5]
         (board_init (\<lambda>_. LOW) (\<lambda>_. 0))
     \<and> pin_pwm (hw s) 13 = Some 95 \<and> pin_pwm (hw s) 15 = Some 0 \<and> dout (hw s) 4 = HIGH"
  by (simp add: Motor_def Let_def tbl_get_def demo_board_def hal_simps board_init_def power_on_def
      motor_setValues_def motor_speed_duty_def motor_dir_duty_def motor_pwm_def pin_pwm_def
      motor_chan_pwm_def motor_chan_dir_def chans_free_def slot_def)

lemma board_exec_ReRunMotor:
  "objs s i = Some (DMotor m) \<Longrightarrow>
   board_exec B (ReRunMotor i) s = Inr \<lparr>hw = snd (motor_reRun B m (hw s)), objs = (objs s)(i \<mapsto> DMotor m)\<rparr>"
  by (simp add: slot_def prod.case_eq_if)

text \<open>C31. Refresh is idempotent on the board (specification section 4.1): in a reachable
  state, re-running a live motor with a nonzero speed leaves every object and every
  channel as it was and enables the motor driver again.\<close>

theorem board_rerun_idempotent:
  "board_reachable B env_d env_a s \<Longrightarrow> objs s i = Some (DMotor m) \<Longrightarrow> mDrehzahl m \<noteq> 0 \<Longrightarrow>
   board_exec B (ReRunMotor i) s = Inr t \<Longrightarrow>
   objs t = objs s \<and> chan_duty (hw t) = chan_duty (hw s) \<and> dout (hw t) (PIN_M_INH B) = HIGH"
proof -
  assume r: "board_reachable B env_d env_a s" and o: "objs s i = Some (DMotor m)"
    and d: "mDrehzahl m \<noteq> 0" and e: "board_exec B (ReRunMotor i) s = Inr t"
  have refl: "motor_reflects m (hw s)" using board_inv_dev_ok [OF board_reachable_inv [OF r] o] by simp
  have pos: "0 < mDrehzahl m" using d by (simp add: word_neq_0_conv)
  note R = motor_reRun_reflecting [OF refl pos, of B]
  have t: "t = \<lparr>hw = snd (motor_reRun B m (hw s)), objs = (objs s)(i \<mapsto> DMotor m)\<rparr>"
    using e board_exec_ReRunMotor [OF o, of B] by simp
  show ?thesis using o R(2,3) by (auto simp: t)
qed

theorem board_rerun_idempotent_witness:
  "\<exists>s m t. board_reachable demo_board (\<lambda>_. LOW) (\<lambda>_. 0) s \<and> objs s 1 = Some (DMotor m)
     \<and> board_exec demo_board (ReRunMotor 1) s = Inr t \<and> chan_duty (hw t) = chan_duty (hw s)
     \<and> dout (hw t) 4 = HIGH"
proof -
  obtain s m0 m where r: "board_reachable demo_board (\<lambda>_. LOW) (\<lambda>_. 0) s"
    and o: "objs s 1 = Some (DMotor m)" and d: "mDrehzahl m = 5"
    using demo_two_motors_reachable by blast
  obtain t where e: "board_exec demo_board (ReRunMotor 1) s = Inr t"
    using board_exec_ReRunMotor [OF o] by blast
  have "mDrehzahl m \<noteq> 0" using d by simp
  from board_rerun_idempotent [OF r o this e] r o e show ?thesis
    by (auto simp: demo_board_def)
qed

end
