(* ===== verification/Spec2Isabelle.thy ===== *)
theory Spec2Isabelle
  imports Exec
begin

text \<open>
  \<^bold>\<open>Verification of the ESP32 I/O objects (src/libs/ft_ESP32_IOobjects.cpp).\<close>

  \<^bold>\<open>The program.\<close> Three classes drive the motors, lamps and inputs of a
  fischertechnik model through two dual motor-driver chips. \<open>Motor\<close> (lines 20--124)
  owns LEDC PWM channels \<open>2n\<close> (speed) and \<open>2n+1\<close> (direction). \<open>Lampe\<close>
  (lines 126--218) owns channel \<open>n\<close> and uses a pin of the PWM row (even lamps) or
  of the motors' direction row (odd lamps). \<open>DigitalAnalogIn\<close> (lines 220--243)
  reads an input pin. Constructors drive the driver-inhibit pin of their chip low;
  \<open>setValues\<close> converts a level 0..7 to an 8-bit duty cycle, writes it and drives
  the inhibit pin high; \<open>reRun\<close> repeats the last command when it was nonzero. The
  objects share the hardware: both inhibit pins, the LEDC channels, and (for odd lamps)
  the motors' direction pins.

  \<^bold>\<open>The theories.\<close>
  \<^item> \<open>Prelude\<close>: the machine types (\<open>unsigned int\<close> as \<open>u32\<close>, the API's
    \<open>uint8_t\<close> channel as \<open>u8\<close>), the \<open>hal_simps\<close> collection, and the
    word facts of the arithmetic (\<open>x * 256 / 8\<close> does not wrap for levels up to 7;
    complements; 8-bit parity; signed and unsigned printing agree below 256).
  \<^item> \<open>Hal\<close>: the vendor API (\<open>pinMode\<close>, \<open>digitalWrite\<close>, \<open>digitalRead\<close>,
    \<open>analogRead\<close>, \<open>ledcAttachPin\<close>, \<open>ledcSetup\<close>, \<open>ledcWrite\<close>,
    \<open>Serial.print\<close>) as updates of the record \<open>hal\<close>, and the header's pin tables
    as the record \<open>board\<close>. Both are not in the sources and are modelled from the
    specification; an out-of-range table read (undefined in C++) is the error
    \<open>IndexOutOfRange\<close>.
  \<^item> \<open>DutyCycle\<close>: the two copies of the clamp-and-scale code
    (\<open>motor_pwm\<close>, lines 77--89; \<open>lampe_pwm\<close>, lines 180--193) and the
    specification's contract \<open>duty_cycle\<close> (section 4.1), with \<open>duty_level\<close>, which
    reads a level back from a duty (used by the lamp decoder \<open>lampe_decode\<close>).
  \<^item> \<open>Motor\<close>, \<open>Lampe\<close>, \<open>DigitalAnalogIn\<close>: one record per class (its members)
    and one definition per constructor and method, each a sequence of API calls on an
    explicit \<open>hal\<close> state, with the source's guards and call order, including the
    serial output. Fallible constructors return \<open>error + object \<times> hal\<close>.
  \<^item> \<open>Board\<close>: a program using the objects, as the inductive relation
    \<open>board_step\<close> over the live objects and the hardware, with
    \<open>board_reachable\<close> from power-on. Every constructor and method is a step. Objects
    made by the default constructors are the separate kinds \<open>DMotorDef\<close>,
    \<open>DLampeDef\<close> and \<open>DInputDef\<close>: they attach no pin and use the channels of motor 0
    and lamp 0. A constructor is taken when the new object's channels are free, which is
    the wiring discipline the source assumes.
  \<^item> \<open>Wiring\<close>: the pin level of the board. \<open>dev_wf\<close> says that an object's members
    are the table entries for its number, and \<open>dev_wires\<close> lists the
    \<open>ledcAttachPin\<close> calls its constructor made. \<open>tables_ok\<close> says that the three
    output tables hold distinct pins. Under it, objects on disjoint channels have
    disjoint pins (\<open>dev_pins_disjoint\<close>), so no constructor detaches another object's pin.
  \<^item> \<open>Exec\<close>: an executable interpreter. \<open>board_exec\<close> runs one call, a value of the
    datatype \<open>cmd\<close>, and \<open>board_run\<close> runs a list of calls. Errors are values:
    \<open>CallError\<close> carries the call's own error, and \<open>NoObject\<close> marks a call on an
    empty slot. A method call dispatches on the class of the slot's object
    (\<open>motor_slot\<close>, \<open>lampe_slot\<close>, \<open>input_slot\<close>), so numbered and default objects
    share one method. The free-channel discipline is kept apart, as \<open>cmd_guard\<close>. The
    simplifier evaluates runs on concrete programs (\<open>demo_run\<close>).
  \<^item> this theory: properties that relate several objects.

  \<^bold>\<open>What is proved.\<close> Each \<open>setValues\<close> refines the contract (C1, C2), the two
  clamp codes agree (C5) and meet step 1 of the contract on 32-bit words (C6), and the
  lamps' channel-parity rule holds (C12). In every reachable state of the board every
  object's channels hold what it last computed (C3) and duties fit 8 bits (C10). Motors
  numbered below 128 get distinct channel numbers after the narrowing to \<open>uint8_t\<close>
  (C14). \<open>reRun\<close> reproduces the last duties and re-enables the driver (C7, C8, C23),
  but not for speed 0 (C9). Constructors set up their channels and pins (C11, C21, C24)
  and fail exactly when a table read is out of range (C15, C16). Inputs read with the
  documented inverted logic (C17, C18). The serial trace reports the value written (C19,
  C30).

  In every reachable state every live object is well formed (C25). When the tables hold
  distinct pins, every motor pin and every set lamp pin carries its object's duty at pin
  level (C26, C27). A lamp's brightness, clamped to 0..8, can be read back from its
  channel for either parity (C28). A lamp's \<open>reRun\<close> at brightness 0 does nothing
  however often it runs, so a fresh odd lamp keeps its full-brightness duty (C29); the
  same holds for a stopped motor (C9). Refreshing a running motor on a reachable board is
  idempotent (C31).

  \<^bold>\<open>Findings.\<close> An odd lamp's constructor writes 0, which on its inverted channel is
  full brightness (C4, C20). A default-constructed input leaves its pin number
  uninitialised, so its reads are undefined (modelled as \<open>None\<close> and the error
  \<open>Indeterminate\<close>). Lamp \<open>2k\<close> and \<open>2k+1\<close> share channels \<open>2k\<close>, \<open>2k+1\<close> with
  motor \<open>k\<close>, so using both overwrites the motor's output (C13). \<open>reRun\<close> of a
  stopped motor leaves a driver inhibited by a sibling's constructor off (C9). A
  default-constructed motor drives the channels of motor 0 (C22). Likewise a lamp's
  \<open>reRun\<close> at brightness 0 leaves its driver off, and an odd lamp that was never set
  stays at full brightness (C29). Odd lamps use the motors' direction pins. Pin-level
  correctness therefore needs distinct table pins and disjoint channels, neither of
  which the source checks (C26).

  \<^bold>\<open>Not modelled.\<close> The PWM peripheral's timing and the driver chip's analog
  behaviour (only the duty values and pin levels are state); the vendor's rejection of
  channels above 15 (channels are kept as the \<open>uint8_t\<close> the API receives); the
  number formatting of \<open>Serial.print\<close> (a printed number is the item \<open>Num\<close>); the
  commented-out simulation prototypes of lines 7--18, which compile to nothing. No loop
  occurs in the source: every method is straight-line code, so no fuel, no
  \<open>while_option\<close> and no termination argument is needed. \<open>board_run\<close> recurses
  structurally on the list of calls; repeated \<open>reRun\<close> calls of an application loop
  are iterations \<open>f ^^ k\<close> of the method, covered for every \<open>k\<close> by induction.
  The vendor library and the header \<open>ft_ESP32_IOobjects.h\<close> are not in the repository.
  They are modelled only as far as the specification and the calls of the source
  describe them, so those two components stay partly modelled. Nothing more of the
  source file remains to be modelled: the lines the map leaves out are comments, the
  \<open>#include\<close>, the commented-out prototypes, and lines holding only braces or blanks.
\<close>

subsection \<open>Motors sharing the inhibit pin\<close>

lemma motor_reflects_other_Motor:
  assumes "motor_reflects ma h" and "Motor B k h = Inr (mk, h')"
    and "unat k < 128" and "unat (mMotorNr ma) < 128" and "mMotorNr ma \<noteq> k"
  shows "motor_reflects ma h'"
proof -
  note D = Motor_InrD [OF assms(2)]
  have "motor_chan_pwm (mMotorNr ma) \<noteq> motor_chan_pwm k" and "motor_chan_dir (mMotorNr ma) \<noteq> motor_chan_dir k"
    using assms(3-5) by (simp_all add: motor_chan_inj)
  with assms(1) show ?thesis by (simp add: motor_reflects_def D(4))
qed

text \<open>C8. Constructing a second motor inhibits the driver of all motors while the running
  motor's channels keep their values; re-running the running motor then re-enables the
  driver with both motors' channels holding their states.\<close>

theorem sibling_construct_then_refresh:
  assumes "motor_reflects ma h0" and "0 < mDrehzahl ma" and "Motor B k h0 = Inr (mk, h1)"
    and "unat k < 128" and "unat (mMotorNr ma) < 128" and "mMotorNr ma \<noteq> k"
  shows "dout h1 (PIN_M_INH B) = LOW \<and> motor_reflects ma h1
    \<and> dout (snd (motor_reRun B ma h1)) (PIN_M_INH B) = HIGH
    \<and> motor_reflects ma (snd (motor_reRun B ma h1)) \<and> motor_reflects mk (snd (motor_reRun B ma h1))"
proof -
  have ra: "motor_reflects ma h1" by (rule motor_reflects_other_Motor [OF assms(1,3-6)])
  have rk: "motor_reflects mk h1" by (rule motor_reflects_Motor [OF assms(3)])
  note R = motor_reRun_reflecting [OF ra assms(2), of B]
  have "motor_reflects ma (snd (motor_reRun B ma h1))" and "motor_reflects mk (snd (motor_reRun B ma h1))"
    using ra rk by (simp_all add: motor_reflects_def R(2))
  with ra show ?thesis by (simp add: R(3) Motor_InrD(5) [OF assms(3)])
qed

theorem sibling_construct_then_refresh_witness:
  "case Motor demo_board 1 (snd (motor_setValues demo_board
          \<lparr>mMotorNr = 0, mPortNrPWM = 12, mPortNrDir = 14, mRechtslauf = True, mDrehzahl = 6\<rparr>
          True 6 (power_on (\<lambda>_. LOW) (\<lambda>_. 0)))) of
     Inl e \<Rightarrow> False
   | Inr (mk, h1) \<Rightarrow> dout h1 (PIN_M_INH demo_board) = LOW \<and>
       dout (snd (motor_reRun demo_board
          \<lparr>mMotorNr = 0, mPortNrPWM = 12, mPortNrDir = 14, mRechtslauf = True, mDrehzahl = 6\<rparr> h1))
          (PIN_M_INH demo_board) = HIGH"
proof -
  let ?ma = "\<lparr>mMotorNr = 0, mPortNrPWM = 12, mPortNrDir = 14, mRechtslauf = True, mDrehzahl = 6\<rparr>"
  let ?h0 = "snd (motor_setValues demo_board ?ma True 6 (power_on (\<lambda>_. LOW) (\<lambda>_. 0)))"
  have r0: "motor_reflects ?ma ?h0"
    using motor_reflects_setValues [of demo_board ?ma True 6 "power_on (\<lambda>_. LOW) (\<lambda>_. 0)"] by simp
  have "\<not> (\<exists>e. Motor demo_board 1 ?h0 = Inl e)" by (simp add: Motor_Inl_iff demo_board_def)
  then obtain mk h1 where c: "Motor demo_board 1 ?h0 = Inr (mk, h1)" by (metis sumE surj_pair)
  have "0 < mDrehzahl ?ma" and "unat (1::u32) < 128" and "unat (mMotorNr ?ma) < 128"
    and "mMotorNr ?ma \<noteq> 1" by simp_all
  from sibling_construct_then_refresh [OF r0 this(1) c this(2-4)] c show ?thesis by simp
qed

subsection \<open>Lamps and motors on the same driver\<close>

text \<open>C13. Lamp \<open>2k\<close> uses motor \<open>k\<close>'s speed channel and lamp \<open>2k+1\<close> its
  direction channel; constructing lamp \<open>2k\<close> while motor \<open>k\<close> runs overwrites the
  motor's speed value.\<close>

theorem lampe_overwrites_motor_channel:
  assumes "motor_reflects m h" and "motor_speed_duty (mRechtslauf m) (mDrehzahl m) \<noteq> 0"
    and "Lampe B (2 * mMotorNr m) h = Inr (l, h')"
  shows "lampe_chan (2 * mMotorNr m) = motor_chan_pwm (mMotorNr m)
    \<and> lampe_chan (2 * mMotorNr m + 1) = motor_chan_dir (mMotorNr m) \<and> \<not> motor_reflects m h'"
proof -
  have eq: "lampe_chan (2 * mMotorNr m) = motor_chan_pwm (mMotorNr m)"
    and "lampe_chan (2 * mMotorNr m + 1) = motor_chan_dir (mMotorNr m)"
    by (simp_all add: lampe_chan_def motor_chan_pwm_def motor_chan_dir_def mult.commute)
  moreover have "chan_duty h' (motor_chan_pwm (mMotorNr m)) = 0"
    using Lampe_InrD(3) [OF assms(3)] eq by simp
  ultimately show ?thesis using assms(2) by (simp add: motor_reflects_def)
qed

theorem lampe_overwrites_motor_channel_witness:
  "case Lampe demo_board 2 (snd (motor_setValues demo_board
          \<lparr>mMotorNr = 1, mPortNrPWM = 13, mPortNrDir = 15, mRechtslauf = True, mDrehzahl = 5\<rparr>
          True 5 (power_on (\<lambda>_. LOW) (\<lambda>_. 0)))) of
     Inl e \<Rightarrow> False
   | Inr (l, h') \<Rightarrow>
       \<not> motor_reflects \<lparr>mMotorNr = 1, mPortNrPWM = 13, mPortNrDir = 15, mRechtslauf = True, mDrehzahl = 5\<rparr> h'"
proof -
  let ?m = "\<lparr>mMotorNr = 1, mPortNrPWM = 13, mPortNrDir = 15, mRechtslauf = True, mDrehzahl = 5\<rparr>"
  let ?h = "snd (motor_setValues demo_board ?m True 5 (power_on (\<lambda>_. LOW) (\<lambda>_. 0)))"
  have r: "motor_reflects ?m ?h"
    using motor_reflects_setValues [of demo_board ?m True 5 "power_on (\<lambda>_. LOW) (\<lambda>_. 0)"] by simp
  have nz: "motor_speed_duty (mRechtslauf ?m) (mDrehzahl ?m) \<noteq> 0"
    by (simp add: motor_speed_duty_def motor_pwm_def)
  have "\<not> (\<exists>e. Lampe demo_board (2 * mMotorNr ?m) ?h = Inl e)"
    by (simp add: Lampe_Inl_iff lampe_port_def demo_board_def)
  then obtain l h' where c: "Lampe demo_board (2 * mMotorNr ?m) ?h = Inr (l, h')"
    by (metis sumE surj_pair)
  from lampe_overwrites_motor_channel [OF r nz c] c show ?thesis by simp
qed

text \<open>C20. Setting any other lamp enables the lamp driver while an odd lamp that was
  constructed but never set still holds its constructor's 0: that lamp is driven at
  the duty of full brightness.\<close>

theorem lampe_sibling_lights_odd:
  assumes "Lampe B n h = Inr (l, h1)" and "odd (unat n)"
    and "lampe_chan (mLampeNr l2) \<noteq> lampe_chan n"
  shows "dout (snd (lampe_setValues B l2 x h1)) (PIN_L_INH B) = HIGH
    \<and> chan_duty (snd (lampe_setValues B l2 x h1)) (lampe_chan n) = lampe_duty n 8"
proof -
  have "n mod 2 = 1" using assms(2) by (simp add: u32_mod2_odd)
  then have "lampe_duty n 8 = 0" by (simp add: lampe_duty_def lampe_pwm_def)
  with assms(3) show ?thesis by (simp add: Lampe_InrD(3) [OF assms(1)])
qed

theorem lampe_sibling_lights_odd_witness:
  "case Lampe demo_board 1 (power_on (\<lambda>_. LOW) (\<lambda>_. 0)) of
     Inl e \<Rightarrow> False
   | Inr (l, h1) \<Rightarrow>
       chan_duty (snd (lampe_setValues demo_board
          \<lparr>mLampeNr = 0, mLampePortNrPWM = 16, mHelligkeit = 0\<rparr> 3 h1)) (lampe_chan 1) = 0"
proof -
  obtain l h1 where c: "Lampe demo_board 1 (power_on (\<lambda>_. LOW) (\<lambda>_. 0)) = Inr (l, h1)"
    by (simp add: Lampe_def demo_board_def tbl_get_def Let_def)
  have o: "odd (unat (1::u32))" by simp
  have ne: "lampe_chan (mLampeNr \<lparr>mLampeNr = 0, mLampePortNrPWM = 16, mHelligkeit = 0\<rparr>) \<noteq> lampe_chan 1"
    by (simp add: lampe_chan_def)
  have "lampe_duty 1 8 = 0" by (simp add: lampe_duty_def lampe_pwm_def)
  with lampe_sibling_lights_odd [OF c o ne, of 3] c show ?thesis by simp
qed

end
